theory Spec2Isabelle
  imports Main "HOL-Library.AList"
begin

section \<open>JavaScript objects as ordered property lists\<close>

text \<open>
  The manifests handled by \<^verbatim>\<open>GenerateAction.onExecute\<close> are plain JavaScript objects
  used as dictionaries from package names to version specifiers. An object is modelled as
  the list of its own properties in the order in which \<^verbatim>\<open>Object.keys\<close> (and
  \<^verbatim>\<open>JSON.stringify\<close>) enumerate them: keys that are array indices first, in ascending
  numeric order, then every other string key in the order of its first insertion. A key
  occurs at most once in an object; the list operations below nevertheless behave sensibly
  on any list (reads and overwrites address the first occurrence).
\<close>

type_synonym 'v js_object = "(string \<times> 'v) list"

definition is_digit :: "char \<Rightarrow> bool" where
  "is_digit c \<longleftrightarrow> c \<in> set ''0123456789''"

definition digit_value :: "char \<Rightarrow> int" where
  "digit_value c = of_char c - 48"

definition decimal :: "string \<Rightarrow> int" where
  "decimal s = foldl (\<lambda>a c. 10 * a + digit_value c) 0 s"

text \<open>A decimal numeral without sign and without a superfluous leading zero.\<close>

definition numeric_identifier :: "string \<Rightarrow> int option" where
  "numeric_identifier s =
     (if s \<noteq> [] \<and> list_all is_digit s \<and> \<not> (hd s = CHR ''0'' \<and> 1 < length s)
      then Some (decimal s) else None)"

text \<open>
  A property key is an array index when it is the canonical decimal form of an integer
  below \<open>2^32 - 1\<close>.
\<close>

definition array_index :: "string \<Rightarrow> int option" where
  "array_index s =
     (case numeric_identifier s of
        None \<Rightarrow> None
      | Some i \<Rightarrow> if i < 4294967295 then Some i else None)"

text \<open>
  Creating a new array-index property \<open>k\<close> (of numeric value \<open>i\<close>): it is enumerated after
  the array indices smaller than \<open>i\<close> and before everything else.
\<close>

fun insert_index :: "int \<Rightarrow> string \<Rightarrow> 'v \<Rightarrow> 'v js_object \<Rightarrow> 'v js_object" where
  "insert_index i k v [] = [(k, v)]"
| "insert_index i k v ((k', v') # kvs) =
     (case array_index k' of
        None \<Rightarrow> (k, v) # (k', v') # kvs
      | Some j \<Rightarrow>
          if j < i then (k', v') # insert_index i k v kvs
          else (k, v) # (k', v') # kvs)"

text \<open>
  The assignment \<^verbatim>\<open>obj[k] = v\<close> of a string \<open>v\<close> to a property of a plain object. An
  existing property keeps its place and gets the new value (\<^const>\<open>AList.update\<close> on a key
  that is present); a new property that is not an array index goes to the end
  (\<^const>\<open>AList.update\<close> on a key that is absent); a new array index is put in numeric
  position. The key \<^verbatim>\<open>__proto__\<close> is the exception: unless the object has a property of
  that name of its own (as an object read by \<^verbatim>\<open>JSON.parse\<close> can have), the assignment
  runs the setter inherited from \<^verbatim>\<open>Object.prototype\<close>, which ignores a string, and no
  property is created.
\<close>

definition obj_set :: "string \<Rightarrow> string \<Rightarrow> string js_object \<Rightarrow> string js_object" where
  "obj_set k v obj =
     (if k = ''__proto__'' \<and> k \<notin> fst ` set obj then obj
      else
        (case array_index k of
           None \<Rightarrow> AList.update k v obj
         | Some i \<Rightarrow>
             if k \<in> fst ` set obj then AList.update k v obj
             else insert_index i k v obj))"

text \<open>The read \<^verbatim>\<open>obj[k]\<close> of a property of its own; \<open>None\<close> stands for a missing one.\<close>

definition obj_get :: "'v js_object \<Rightarrow> string \<Rightarrow> 'v option" where
  "obj_get obj k = map_of obj k"

definition obj_keys :: "'v js_object \<Rightarrow> string list" where
  "obj_keys obj = map fst obj"


section \<open>Manifests, projects and the workspace\<close>

type_synonym dependency_map = "string js_object"

text \<open>
  The \<^verbatim>\<open>package.json\<close> of a workspace project, \<^verbatim>\<open>rushProject.packageJson\<close>, with the
  fields that \<^verbatim>\<open>onExecute\<close> reads. The three dependency fields are optional: \<open>None\<close> is a
  field that is missing from the file (a falsy value in the guards
  \<^verbatim>\<open>if (packageJson.devDependencies)\<close>), and \<open>Some []\<close> is the empty object \<^verbatim>\<open>{}\<close>, which
  is truthy. The version is the string that line 169 reads.
\<close>

record PackageJson =
  version :: string
  dependencies :: "dependency_map option"
  devDependencies :: "dependency_map option"
  optionalDependencies :: "dependency_map option"

text \<open>
  The manifests that \<^verbatim>\<open>onExecute\<close> builds: \<^verbatim>\<open>tempPackageJson\<close> for every project and
  \<^verbatim>\<open>commonPackageJson\<close> for the common folder. Both are created with a
  \<^verbatim>\<open>dependencies\<close> object, so that field is not optional here; \<^verbatim>\<open>description\<close>,
  \<^verbatim>\<open>optionalDependencies\<close> and \<^verbatim>\<open>rushDependencies\<close> are present only once assigned. The
  field \<^verbatim>\<open>private\<close> is written \<open>private'\<close>, the plain word being reserved.
\<close>

record IPackageJson =
  name :: string
  version :: string
  private' :: bool
  description :: "string option"
  dependencies :: dependency_map
  optionalDependencies :: "dependency_map option"
  rushDependencies :: "dependency_map option"

record RushConfigProject =
  packageName :: string
  packageJson :: PackageJson
  tempProjectName :: string
  cyclicDependencyProjects :: "string set"

text \<open>
  \<^verbatim>\<open>RushConfig\<close> comes from the library \<^verbatim>\<open>@microsoft/rush-lib\<close>. Of it, \<^verbatim>\<open>onExecute\<close>
  uses the project list and the method \<^verbatim>\<open>getProjectByName\<close>, which is kept as a field of
  function type: whatever lookup the configuration provides, with \<open>None\<close> for
  \<^verbatim>\<open>undefined\<close>.
\<close>

record RushConfig =
  projects :: "RushConfigProject list"
  getProjectByName :: "string \<Rightarrow> RushConfigProject option"

text \<open>
  What can be thrown during step 4 of \<^verbatim>\<open>onExecute\<close>, which catches nothing:
  \<^verbatim>\<open>TypeError\<close> by \<^verbatim>\<open>semver.satisfies\<close>, \<^verbatim>\<open>EEXIST\<close> by \<^verbatim>\<open>fsx.mkdirSync\<close> for a folder
  that exists, and any other failure of \<^verbatim>\<open>fsx.mkdirSync\<close> (such as \<^verbatim>\<open>ENOENT\<close> for a
  name with a missing parent folder). \<open>Unmodelled\<close> is no error of the program: it is
  the answer of a stand-in for a collaborator on an input for which the stand-in does not
  know the collaborator's answer.
\<close>

datatype error = TypeError string | EEXIST string | FsError string | Unmodelled

text \<open>
  The test \<^verbatim>\<open>semver.satisfies(version, range)\<close> belongs to the npm package \<^verbatim>\<open>semver\<close>.
  It is a parameter of the model, \<open>satisfies\<close>: it answers \<^verbatim>\<open>true\<close> or \<^verbatim>\<open>false\<close>, or
  it throws.
\<close>

type_synonym satisfies = "string \<Rightarrow> string \<Rightarrow> error + bool"

text \<open>
  The file system is a parameter too, \<open>failure\<close>: given the folders made so far under
  \<^verbatim>\<open>common/temp_modules\<close> and the name of the next one, the error with which
  \<^verbatim>\<open>fsx.mkdirSync\<close> fails for a reason other than the folder having been made before, if
  it fails so.
\<close>

type_synonym mkdir_failure = "string list \<Rightarrow> string \<Rightarrow> error option"


section \<open>Constructing the temp projects\<close>

text \<open>
  Lines 137--155: the pairs \<^verbatim>\<open>{ packageName, packageVersion }\<close>, first those of
  \<^verbatim>\<open>devDependencies\<close>, then those of \<^verbatim>\<open>dependencies\<close>, each in key order. A pair is
  modelled as a tuple of the name and the specifier.
\<close>

definition entries :: "dependency_map option \<Rightarrow> (string \<times> string) list" where
  "entries field = (case field of None \<Rightarrow> [] | Some obj \<Rightarrow> obj)"

definition collect_pairs :: "PackageJson \<Rightarrow> (string \<times> string) list" where
  "collect_pairs pj =
     entries (devDependencies pj) @ entries (PackageJson.dependencies pj)"

text \<open>
  Lines 157--184, the body of the loop over the pairs. The three nested tests guard the
  local link; every path that fails one of them falls through to line 183. The version
  test is reached only behind the other two, and what it throws leaves the loop.
\<close>

definition add_regular :: "IPackageJson \<Rightarrow> string \<times> string \<Rightarrow> IPackageJson" where
  "add_regular tmp pair =
     tmp\<lparr>dependencies := obj_set (fst pair) (snd pair) (dependencies tmp)\<rparr>"

definition add_rush :: "IPackageJson \<Rightarrow> string \<times> string \<Rightarrow> IPackageJson" where
  "add_rush tmp pair =
     tmp\<lparr>rushDependencies :=
           Some (obj_set (fst pair) (snd pair)
                   (case rushDependencies tmp of None \<Rightarrow> [] | Some r \<Rightarrow> r))\<rparr>"

definition process_pair ::
  "satisfies \<Rightarrow> RushConfig \<Rightarrow> RushConfigProject \<Rightarrow> IPackageJson \<Rightarrow> string \<times> string
     \<Rightarrow> error + IPackageJson" where
  "process_pair satisfies rushConfig rushProject tmp pair =
     (case getProjectByName rushConfig (fst pair) of
        None \<Rightarrow> Inr (add_regular tmp pair)
      | Some localProject \<Rightarrow>
          if fst pair \<notin> cyclicDependencyProjects rushProject then
            (case satisfies (PackageJson.version (packageJson localProject)) (snd pair) of
               Inl thrown \<Rightarrow> Inl thrown
             | Inr satisfied \<Rightarrow>
                 if satisfied then Inr (add_rush tmp pair)
                 else Inr (add_regular tmp pair))
          else Inr (add_regular tmp pair))"

text \<open>Line 157, the loop over the pairs.\<close>

fun process_pairs ::
  "satisfies \<Rightarrow> RushConfig \<Rightarrow> RushConfigProject \<Rightarrow> IPackageJson \<Rightarrow> (string \<times> string) list
     \<Rightarrow> error + IPackageJson" where
  "process_pairs satisfies rushConfig rushProject tmp [] = Inr tmp"
| "process_pairs satisfies rushConfig rushProject tmp (pair # pairs) =
     (case process_pair satisfies rushConfig rushProject tmp pair of
        Inl thrown \<Rightarrow> Inl thrown
      | Inr tmp' \<Rightarrow> process_pairs satisfies rushConfig rushProject tmp' pairs)"

text \<open>Lines 124--134: the fresh manifest, with the optional dependencies copied over.\<close>

definition new_tempPackageJson :: "RushConfigProject \<Rightarrow> IPackageJson" where
  "new_tempPackageJson rushProject =
     \<lparr>name = tempProjectName rushProject,
      version = ''0.0.0'',
      private' = True,
      description = None,
      dependencies = [],
      optionalDependencies = PackageJson.optionalDependencies (packageJson rushProject),
      rushDependencies = None\<rparr>"

text \<open>Lines 124--184: the manifest that line 186 saves for one project, if nothing throws.\<close>

definition tempPackageJson ::
  "satisfies \<Rightarrow> RushConfig \<Rightarrow> RushConfigProject \<Rightarrow> error + IPackageJson" where
  "tempPackageJson satisfies rushConfig rushProject =
     process_pairs satisfies rushConfig rushProject
       (new_tempPackageJson rushProject)
       (collect_pairs (packageJson rushProject))"

text \<open>
  The effects of step 4 of \<^verbatim>\<open>onExecute\<close>: the folders made under
  \<^verbatim>\<open>common/temp_modules\<close> (by the \<^verbatim>\<open>tempProjectName\<close> given to \<^verbatim>\<open>path.join\<close>), the objects
  handed to \<^verbatim>\<open>JsonFile.saveJsonFile\<close> with their destinations, the lines printed to the
  console, and the \<^verbatim>\<open>commonPackageJson\<close> being filled. Writing a file into a folder
  that was just made is taken to succeed.
\<close>

datatype json_file = TempPackageJsonFile string | CommonPackageJsonFile

record State =
  commonPackageJson :: IPackageJson
  folders :: "string list"
  saved :: "(json_file \<times> IPackageJson) list"
  console :: "string list"

text \<open>
  Line 118. \<^verbatim>\<open>fsx.mkdirSync\<close> throws \<^verbatim>\<open>EEXIST\<close> for a name that the loop has made a
  folder of before; otherwise the file system decides.
\<close>

definition mkdirSync :: "mkdir_failure \<Rightarrow> string list \<Rightarrow> string \<Rightarrow> error option" where
  "mkdirSync failure made folder =
     (if folder \<in> set made then Some (EEXIST folder) else failure made folder)"

text \<open>
  Lines 112--187, the loop over \<^verbatim>\<open>rushConfig.projects\<close>. An exception leaves the loop
  with the state reached so far: what was written to disk before stays written.
\<close>

fun create_temp_projects ::
  "satisfies \<Rightarrow> mkdir_failure \<Rightarrow> RushConfig \<Rightarrow> RushConfigProject list \<Rightarrow> State
     \<Rightarrow> (error \<times> State) + State" where
  "create_temp_projects satisfies failure rushConfig [] st = Inr st"
| "create_temp_projects satisfies failure rushConfig (rushProject # rest) st =
     (case mkdirSync failure (folders st) (tempProjectName rushProject) of
        Some thrown \<Rightarrow> Inl (thrown, st)
      | None \<Rightarrow>
          (case tempPackageJson satisfies rushConfig rushProject of
             Inl thrown \<Rightarrow>
               Inl (thrown,
                    st\<lparr>folders := folders st @ [tempProjectName rushProject],
                       commonPackageJson :=
                         (commonPackageJson st)
                           \<lparr>dependencies :=
                              obj_set (tempProjectName rushProject)
                                (''file:./temp_modules/'' @ tempProjectName rushProject)
                                (dependencies (commonPackageJson st))\<rparr>\<rparr>)
           | Inr tmp \<Rightarrow>
               create_temp_projects satisfies failure rushConfig rest
                 (st\<lparr>folders := folders st @ [tempProjectName rushProject],
                     commonPackageJson :=
                       (commonPackageJson st)
                         \<lparr>dependencies :=
                            obj_set (tempProjectName rushProject)
                              (''file:./temp_modules/'' @ tempProjectName rushProject)
                              (dependencies (commonPackageJson st))\<rparr>,
                     saved := saved st @
                       [(TempPackageJsonFile (tempProjectName rushProject), tmp)]\<rparr>)))"

text \<open>
  Lines 99--191. Steps 2 and 4 have just removed and recreated
  \<^verbatim>\<open>common/temp_modules\<close>, so the loop starts with no folder in it.
\<close>

definition initial_state :: State where
  "initial_state =
     \<lparr>commonPackageJson =
        \<lparr>name = ''rush-common'',
         version = ''0.0.0'',
         private' = True,
         description = Some ''Temporary file generated by the Rush tool'',
         dependencies = [],
         optionalDependencies = None,
         rushDependencies = None\<rparr>,
      folders = [],
      saved = [],
      console = [''Creating a clean common/temp_modules folder'',
                 ''Creating temp projects...'']\<rparr>"

definition onExecute ::
  "satisfies \<Rightarrow> mkdir_failure \<Rightarrow> RushConfig \<Rightarrow> (error \<times> State) + State" where
  "onExecute satisfies failure rushConfig =
     (case create_temp_projects satisfies failure rushConfig (projects rushConfig)
             initial_state of
        Inl thrown \<Rightarrow> Inl thrown
      | Inr st \<Rightarrow>
          Inr (st\<lparr>console := console st @ [''Writing common/package.json''],
                  saved := saved st @ [(CommonPackageJsonFile, commonPackageJson st)]\<rparr>))"

text \<open>What a run leaves behind, whether it completed or threw.\<close>

definition outcome_state :: "(error \<times> State) + State \<Rightarrow> State" where
  "outcome_state r = (case r of Inl (e, st) \<Rightarrow> st | Inr st \<Rightarrow> st)"

definition completed :: "(error \<times> State) + State \<Rightarrow> bool" where
  "completed r = (case r of Inl thrown \<Rightarrow> False | Inr st \<Rightarrow> True)"


text \<open>An entry of the saved files is the manifest of a project, saved at line 186.\<close>

definition saved_for ::
  "satisfies \<Rightarrow> RushConfig \<Rightarrow> RushConfigProject \<Rightarrow> json_file \<times> IPackageJson \<Rightarrow> bool" where
  "saved_for satisfies rushConfig rushProject entry \<longleftrightarrow>
     fst entry = TempPackageJsonFile (tempProjectName rushProject) \<and>
     tempPackageJson satisfies rushConfig rushProject = Inr (snd entry)"


section \<open>The classification of the specification\<close>

text \<open>
  The specification describes the loop body as a classifier with three steps: a name that
  is absent from the workspace index is external; a name that is present but listed in the
  cyclic exemptions of the project under test is external; otherwise the candidate's
  version decides, by a test that answers yes or no. \<open>classify\<close> is written after these
  words, to be compared with \<^const>\<open>process_pair\<close>, which is written after the code, and
  \<open>record_pair\<close> is the assignment that the code makes for a pair of either kind.
\<close>

datatype kind = LocalLink | ExternalRegistry

definition classify ::
  "(string \<Rightarrow> string \<Rightarrow> bool) \<Rightarrow> RushConfig \<Rightarrow> RushConfigProject \<Rightarrow> string \<times> string \<Rightarrow> kind" where
  "classify isSatisfied workspaceIndex projectUnderTest pair =
     (case getProjectByName workspaceIndex (fst pair) of
        None \<Rightarrow> ExternalRegistry
      | Some candidate \<Rightarrow>
          if fst pair \<in> cyclicDependencyProjects projectUnderTest then ExternalRegistry
          else if isSatisfied (PackageJson.version (packageJson candidate)) (snd pair)
          then LocalLink
          else ExternalRegistry)"

definition record_pair :: "kind \<Rightarrow> IPackageJson \<Rightarrow> string \<times> string \<Rightarrow> IPackageJson" where
  "record_pair k tmp pair =
     (case k of LocalLink \<Rightarrow> add_rush tmp pair | ExternalRegistry \<Rightarrow> add_regular tmp pair)"

text \<open>The yes-or-no test that a version test of the code stands for: it answered \<^verbatim>\<open>true\<close>.\<close>

definition answers_true :: "satisfies \<Rightarrow> string \<Rightarrow> string \<Rightarrow> bool" where
  "answers_true satisfies v r \<longleftrightarrow> satisfies v r = Inr True"


section \<open>Concrete collaborators for evaluation\<close>

text \<open>
  The theorems below hold for every \<open>satisfies\<close>, every \<open>failure\<close> and every
  \<^const>\<open>getProjectByName\<close>. To run the model on concrete workspaces, three stand-ins
  are used.

  \<open>semver_fragment\<close> gives the answer of \<^verbatim>\<open>semver.satisfies\<close> where it is sure of it,
  and \<^const>\<open>Unmodelled\<close> everywhere else. It knows the versions \<^verbatim>\<open>M.m.p\<close> of three
  decimal numerals up to \<open>2^53 - 1\<close>, and the ranges that are such a version (exact match)
  or a caret range \<^verbatim>\<open>^M.m.p\<close> (at least \<^verbatim>\<open>M.m.p\<close>, and below the next change of the
  leftmost non-zero component). It knows two more things about the library. A range of
  lower-case letters and hyphens that begins with a letter other than \<^verbatim>\<open>v\<close> and \<^verbatim>\<open>x\<close>
  cannot be parsed, and for a range that cannot be parsed the library catches the parse
  error and answers \<^verbatim>\<open>false\<close>, whatever the version. A version without any digit is
  invalid, and for an invalid version and a range that can be parsed the library throws
  \<^verbatim>\<open>TypeError\<close>, except that it answers \<^verbatim>\<open>false\<close> for the empty string.
\<close>

definition max_safe_integer :: int where
  "max_safe_integer = 9007199254740991"

fun split_dots :: "string \<Rightarrow> string list" where
  "split_dots [] = [[]]"
| "split_dots (c # cs) =
     (if c = CHR ''.'' then [] # split_dots cs
      else (case split_dots cs of
              [] \<Rightarrow> [[c]]
            | part # parts \<Rightarrow> (c # part) # parts))"

definition parse_version :: "string \<Rightarrow> (int \<times> int \<times> int) option" where
  "parse_version s =
     (case map numeric_identifier (split_dots s) of
        [Some major, Some minor, Some patch] \<Rightarrow>
          if major \<le> max_safe_integer \<and> minor \<le> max_safe_integer \<and> patch \<le> max_safe_integer
          then Some (major, minor, patch)
          else None
      | _ \<Rightarrow> None)"

fun version_less :: "int \<times> int \<times> int \<Rightarrow> int \<times> int \<times> int \<Rightarrow> bool" where
  "version_less (a, b, c) (x, y, z) \<longleftrightarrow>
     a < x \<or> (a = x \<and> (b < y \<or> (b = y \<and> c < z)))"

fun caret_bound :: "int \<times> int \<times> int \<Rightarrow> int \<times> int \<times> int" where
  "caret_bound (major, minor, patch) =
     (if 0 < major then (major + 1, 0, 0)
      else if 0 < minor then (0, minor + 1, 0)
      else (0, 0, patch + 1))"

datatype version_range = Exact "int \<times> int \<times> int" | Caret "int \<times> int \<times> int"

text \<open>The bound of a caret range has to be a version itself, so its components stay below \<open>2^53 - 1\<close>.\<close>

definition parse_range :: "string \<Rightarrow> version_range option" where
  "parse_range r =
     (case r of
        [] \<Rightarrow> None
      | c # rest \<Rightarrow>
          if c = CHR ''^'' then
            (case parse_version rest of
               None \<Rightarrow> None
             | Some (major, minor, patch) \<Rightarrow>
                 if major < max_safe_integer \<and> minor < max_safe_integer
                    \<and> patch < max_safe_integer
                 then Some (Caret (major, minor, patch)) else None)
          else map_option Exact (parse_version r))"

fun in_range :: "int \<times> int \<times> int \<Rightarrow> version_range \<Rightarrow> bool" where
  "in_range ver (Exact exact) \<longleftrightarrow> ver = exact"
| "in_range ver (Caret low) \<longleftrightarrow> \<not> version_less ver low \<and> version_less ver (caret_bound low)"

definition unparsable_range :: "string \<Rightarrow> bool" where
  "unparsable_range r \<longleftrightarrow>
     r \<noteq> [] \<and> list_all (\<lambda>c. c \<in> set ''abcdefghijklmnopqrstuvwxyz-'') r
     \<and> hd r \<in> set ''abcdefghijklmnopqrstuwyz''"

definition semver_fragment :: satisfies where
  "semver_fragment v r =
     (if unparsable_range r then Inr False
      else
        (case parse_range r of
           None \<Rightarrow> Inl Unmodelled
         | Some known \<Rightarrow>
             if v = [] then Inr False
             else
               (case parse_version v of
                  Some ver \<Rightarrow> Inr (in_range ver known)
                | None \<Rightarrow>
                    if list_ex is_digit v \<or> 256 < length v then Inl Unmodelled
                    else Inl (TypeError (''Invalid Version: '' @ v)))))"

text \<open>
  \<open>writable_folder\<close> is a fresh, writable \<^verbatim>\<open>common/temp_modules\<close>: making a folder
  whose name begins with \<^verbatim>\<open>rush-\<close> and consists of lower-case letters, digits and hyphens
  succeeds there, unless the folder has been made before, which \<^const>\<open>mkdirSync\<close> sees
  to.
\<close>

definition writable_folder :: mkdir_failure where
  "writable_folder made folder =
     (if take 5 folder = ''rush-'' \<and> length folder \<le> 255
         \<and> list_all (\<lambda>c. c \<in> set ''abcdefghijklmnopqrstuvwxyz0123456789-'') folder
      then None else Some Unmodelled)"

text \<open>
  Modelled from the spec: \<^verbatim>\<open>RushConfig.getProjectByName\<close> is code of
  \<^verbatim>\<open>@microsoft/rush-lib\<close>; the spec describes it as the index of all workspace projects
  keyed by name. \<open>projectsByName\<close> is that index, and \<open>rushConfigOf\<close> the configuration
  of a project list.
\<close>

definition projectsByName :: "RushConfigProject list \<Rightarrow> string \<Rightarrow> RushConfigProject option" where
  "projectsByName ps n = find (\<lambda>p. packageName p = n) ps"

definition rushConfigOf :: "RushConfigProject list \<Rightarrow> RushConfig" where
  "rushConfigOf ps = \<lparr>projects = ps, getProjectByName = projectsByName ps\<rparr>"

text \<open>
  A project with the given name, version, dependency fields and cyclic exemptions. Its
  temp project name is the name with \<^verbatim>\<open>rush-\<close> in front, the form that the comment at
  line 72 relies on.
\<close>

definition project ::
  "string \<Rightarrow> string \<Rightarrow> dependency_map option \<Rightarrow> dependency_map option
     \<Rightarrow> dependency_map option \<Rightarrow> string list \<Rightarrow> RushConfigProject" where
  "project n v deps devDeps optDeps cyclic =
     \<lparr>packageName = n,
      packageJson =
        \<lparr>PackageJson.version = v,
         PackageJson.dependencies = deps,
         devDependencies = devDeps,
         PackageJson.optionalDependencies = optDeps\<rparr>,
      tempProjectName = ''rush-'' @ n,
      cyclicDependencyProjects = set cyclic\<rparr>"

text \<open>
  Workspaces used to run the model. \<^verbatim>\<open>utils\<close> is a workspace project of version
  \<^verbatim>\<open>1.2.0\<close>, \<^verbatim>\<open>utils_unversioned\<close> is the same project with a version that is none, and
  \<^verbatim>\<open>left-pad\<close> is not a workspace project.
\<close>

definition utils :: RushConfigProject where
  "utils = project ''utils'' ''1.2.0'' None None None []"

definition utils_unversioned :: RushConfigProject where
  "utils_unversioned = project ''utils'' ''unversioned'' None None None []"

definition web_linked :: RushConfigProject where
  "web_linked =
     project ''web'' ''1.0.0''
       (Some [(''utils'', ''^1.0.0''), (''left-pad'', ''^1.3.0'')]) None None []"

definition web_dev_external :: RushConfigProject where
  "web_dev_external =
     project ''web'' ''1.0.0''
       (Some [(''utils'', ''^1.0.0'')]) (Some [(''utils'', ''^0.9.0'')]) None []"

definition web_dev_linked :: RushConfigProject where
  "web_dev_linked =
     project ''web'' ''1.0.0''
       (Some [(''utils'', ''^2.0.0'')]) (Some [(''utils'', ''^1.0.0'')]) None []"

definition web_both_linked :: RushConfigProject where
  "web_both_linked =
     project ''web'' ''1.0.0''
       (Some [(''utils'', ''^1.2.0'')]) (Some [(''utils'', ''^1.0.0'')]) None []"

definition web_both_external :: RushConfigProject where
  "web_both_external =
     project ''web'' ''1.0.0''
       (Some [(''left-pad'', ''^1.3.0'')])
       (Some [(''left-pad'', ''^1.0.0''), (''__proto__'', ''^1.0.0'')]) None []"

definition web_malformed :: RushConfigProject where
  "web_malformed =
     project ''web'' ''1.0.0'' (Some [(''utils'', ''not-a-version'')]) None None []"

definition web_exempt :: RushConfigProject where
  "web_exempt =
     project ''web'' ''1.0.0'' (Some [(''utils'', ''^1.0.0'')]) None None [''utils'']"

definition web_no_optional :: RushConfigProject where
  "web_no_optional =
     project ''web'' ''1.0.0'' (Some [(''left-pad'', ''^1.3.0'')]) None (Some []) []"

definition web_self_named :: RushConfigProject where
  "web_self_named =
     project ''web'' ''1.0.0'' (Some [(''rush-web'', ''^1.0.0'')]) None None []"

text \<open>A workspace project named \<^verbatim>\<open>__proto__\<close>, and a project that depends on it.\<close>

definition proto :: RushConfigProject where
  "proto = project ''__proto__'' ''1.0.0'' None None None []"

definition web_proto :: RushConfigProject where
  "web_proto =
     project ''web'' ''1.0.0'' (Some [(''__proto__'', ''^1.0.0'')]) None None []"

text \<open>Two projects whose names differ in the scope only, with one temp project name.\<close>

definition shared_a :: RushConfigProject where
  "shared_a =
     (project ''@a/shared'' ''1.0.0'' None None None [])\<lparr>tempProjectName := ''rush-shared''\<rparr>"

definition shared_b :: RushConfigProject where
  "shared_b =
     (project ''@b/shared'' ''1.0.0'' None None None [])\<lparr>tempProjectName := ''rush-shared''\<rparr>"

section \<open>Assignments to an object\<close>

lemma map_of_insert_index:
  "k \<notin> fst ` set obj \<Longrightarrow> map_of (insert_index i k v obj) = (map_of obj)(k \<mapsto> v)"
  by (induction obj) (auto simp: fun_eq_iff split: option.splits)

lemma set_insert_index: "set (insert_index i k v obj) = insert (k, v) (set obj)"
  by (induction obj) (auto split: option.splits if_splits)

lemma obj_get_obj_set_other: "k' \<noteq> k \<Longrightarrow> obj_get (obj_set k v obj) k' = obj_get obj k'"
  by (simp add: obj_get_def obj_set_def map_of_insert_index update_conv' split: option.splits)

lemma obj_get_obj_set_same: "k \<noteq> ''__proto__'' \<Longrightarrow> obj_get (obj_set k v obj) k = Some v"
  by (simp add: obj_get_def obj_set_def map_of_insert_index update_conv' split: option.splits)


lemma set_obj_set_subset: "set (obj_set k v obj) \<subseteq> insert (k, v) (set obj)"
proof -
  have "set (AList.update k v obj) \<subseteq> insert (k, v) (set obj)"
    by (induction obj) auto
  then show ?thesis
    by (auto simp: obj_set_def set_insert_index split: option.splits)
qed

lemma obj_get_Nil: "obj_get [] k = None"
  by (simp add: obj_get_def)


lemma entries_simps: "entries None = []" "entries (Some obj) = obj"
  by (simp_all add: entries_def)

section \<open>The loop over the pairs\<close>

text \<open>
  When the loop body returns, it has made the assignment that \<^const>\<open>classify\<close> names, the
  version test being read as \<^const>\<open>answers_true\<close>.
\<close>

lemma process_pair_record_pair:
  "process_pair sat cfg p tmp pair = Inr out \<Longrightarrow>
   out = record_pair (classify (answers_true sat) cfg p pair) tmp pair"
  by (auto simp: process_pair_def classify_def record_pair_def answers_true_def
           split: option.splits if_splits sum.splits)

lemma process_pairs_foldl:
  "process_pairs sat cfg p tmp ps = Inr out \<Longrightarrow>
   out = foldl (\<lambda>t pair. record_pair (classify (answers_true sat) cfg p pair) t pair) tmp ps"
proof (induction ps arbitrary: tmp)
  case Nil
  then show ?case by simp
next
  case (Cons pair ps)
  then show ?case
    by (auto split: sum.splits dest: process_pair_record_pair)
qed


lemma record_pair_fields:
  "name (record_pair k tmp pair) = name tmp"
  "IPackageJson.version (record_pair k tmp pair) = IPackageJson.version tmp"
  "private' (record_pair k tmp pair) = private' tmp"
  "description (record_pair k tmp pair) = description tmp"
  "IPackageJson.optionalDependencies (record_pair k tmp pair) = IPackageJson.optionalDependencies tmp"
  by (cases k; simp add: record_pair_def add_regular_def add_rush_def)+

lemma dependencies_record_pair:
  "dependencies (record_pair k tmp pair) =
     (if k = ExternalRegistry then obj_set (fst pair) (snd pair) (dependencies tmp)
      else dependencies tmp)"
  by (cases k) (simp_all add: record_pair_def add_regular_def add_rush_def)

lemma rushDependencies_record_pair:
  "rushDependencies (record_pair k tmp pair) =
     (if k = LocalLink
      then Some (obj_set (fst pair) (snd pair) (entries (rushDependencies tmp)))
      else rushDependencies tmp)"
  by (cases k) (simp_all add: record_pair_def add_regular_def add_rush_def entries_def)

lemma foldl_record_pair_dependencies:
  "k \<noteq> ''__proto__'' \<Longrightarrow>
   obj_get (dependencies (foldl (\<lambda>t pair. record_pair (c pair) t pair) tmp ps)) k =
     (case map_of (rev (filter (\<lambda>pair. c pair = ExternalRegistry) ps)) k of
        None \<Rightarrow> obj_get (dependencies tmp) k
      | Some s \<Rightarrow> Some s)"
proof (induction ps rule: rev_induct)
  case Nil
  show ?case by simp
next
  case (snoc x xs)
  then show ?case
    by (cases "fst x = k")
       (auto simp: dependencies_record_pair obj_get_obj_set_same obj_get_obj_set_other)
qed

lemma foldl_record_pair_rushDependencies:
  "k \<noteq> ''__proto__'' \<Longrightarrow>
   obj_get (entries (rushDependencies (foldl (\<lambda>t pair. record_pair (c pair) t pair) tmp ps))) k =
     (case map_of (rev (filter (\<lambda>pair. c pair = LocalLink) ps)) k of
        None \<Rightarrow> obj_get (entries (rushDependencies tmp)) k
      | Some s \<Rightarrow> Some s)"
proof (induction ps rule: rev_induct)
  case Nil
  show ?case by simp
next
  case (snoc x xs)
  then show ?case
    by (cases "fst x = k")
       (auto simp: rushDependencies_record_pair obj_get_obj_set_same obj_get_obj_set_other
          entries_simps)
qed

lemma foldl_record_pair_rush_absent:
  "rushDependencies (foldl (\<lambda>t pair. record_pair (c pair) t pair) tmp ps) = None \<longleftrightarrow>
     rushDependencies tmp = None \<and> list_all (\<lambda>pair. c pair = ExternalRegistry) ps"
proof (induction ps rule: rev_induct)
  case Nil
  show ?case by simp
next
  case (snoc x xs)
  then show ?case
    by (cases "c x") (auto simp: rushDependencies_record_pair)
qed

lemma foldl_record_pair_dependencies_set:
  "set (dependencies (foldl (\<lambda>t pair. record_pair (c pair) t pair) tmp ps)) \<subseteq>
     set (dependencies tmp) \<union> set (filter (\<lambda>pair. c pair = ExternalRegistry) ps)"
proof (induction ps rule: rev_induct)
  case Nil
  show ?case by simp
next
  case (snoc x xs)
  with set_obj_set_subset [of "fst x" "snd x"
         "dependencies (foldl (\<lambda>t pair. record_pair (c pair) t pair) tmp xs)"]
  show ?case
    by (auto simp: dependencies_record_pair)
qed

lemma foldl_record_pair_rush_set:
  "set (entries (rushDependencies (foldl (\<lambda>t pair. record_pair (c pair) t pair) tmp ps))) \<subseteq>
     set (entries (rushDependencies tmp)) \<union> set (filter (\<lambda>pair. c pair = LocalLink) ps)"
proof (induction ps rule: rev_induct)
  case Nil
  show ?case by simp
next
  case (snoc x xs)
  with set_obj_set_subset [of "fst x" "snd x"
         "entries (rushDependencies (foldl (\<lambda>t pair. record_pair (c pair) t pair) tmp xs))"]
  show ?case
    by (auto simp: rushDependencies_record_pair entries_simps)
qed

lemma foldl_record_pair_fields:
  "name (foldl (\<lambda>t pair. record_pair (c pair) t pair) tmp ps) = name tmp"
  "IPackageJson.optionalDependencies (foldl (\<lambda>t pair. record_pair (c pair) t pair) tmp ps) =
     IPackageJson.optionalDependencies tmp"
  by (induction ps rule: rev_induct) (simp_all add: record_pair_fields)

lemma map_of_rev_filter_all:
  "(\<And>s. (n, s) \<in> set ps \<Longrightarrow> Q (n, s)) \<Longrightarrow> map_of (rev (filter Q ps)) n = map_of (rev ps) n"
  by (induction ps rule: rev_induct) auto

lemma map_of_rev_filter_last:
  "map_of (rev ps) n = Some s \<Longrightarrow> Q (n, s) \<Longrightarrow> map_of (rev (filter Q ps)) n = Some s"
  by (induction ps rule: rev_induct) (auto split: if_splits)

lemma new_tempPackageJson_fields:
  "dependencies (new_tempPackageJson p) = []"
  "rushDependencies (new_tempPackageJson p) = None"
  "IPackageJson.optionalDependencies (new_tempPackageJson p) =
     PackageJson.optionalDependencies (packageJson p)"
  "name (new_tempPackageJson p) = tempProjectName p"
  by (simp_all add: new_tempPackageJson_def)

lemma tempPackageJson_foldl:
  "tempPackageJson sat cfg p = Inr out \<Longrightarrow>
   out = foldl (\<lambda>t pair. record_pair (classify (answers_true sat) cfg p pair) t pair)
           (new_tempPackageJson p) (collect_pairs (packageJson p))"
  unfolding tempPackageJson_def by (rule process_pairs_foldl)

lemma tempPackageJson_dependencies:
  "tempPackageJson sat cfg p = Inr out \<Longrightarrow> n \<noteq> ''__proto__'' \<Longrightarrow>
   obj_get (dependencies out) n =
     map_of (rev (filter (\<lambda>pair. classify (answers_true sat) cfg p pair = ExternalRegistry)
                    (collect_pairs (packageJson p)))) n"
  by (drule tempPackageJson_foldl)
     (simp add: foldl_record_pair_dependencies new_tempPackageJson_fields obj_get_Nil
        split: option.splits)

lemma tempPackageJson_rushDependencies:
  "tempPackageJson sat cfg p = Inr out \<Longrightarrow> n \<noteq> ''__proto__'' \<Longrightarrow>
   obj_get (entries (rushDependencies out)) n =
     map_of (rev (filter (\<lambda>pair. classify (answers_true sat) cfg p pair = LocalLink)
                    (collect_pairs (packageJson p)))) n"
  by (drule tempPackageJson_foldl)
     (simp add: foldl_record_pair_rushDependencies new_tempPackageJson_fields obj_get_Nil
        entries_simps split: option.splits)

lemma tempPackageJson_dependencies_set:
  "tempPackageJson sat cfg p = Inr out \<Longrightarrow>
   set (dependencies out) \<subseteq>
     set (filter (\<lambda>pair. classify (answers_true sat) cfg p pair = ExternalRegistry)
            (collect_pairs (packageJson p)))"
  using foldl_record_pair_dependencies_set
          [of "\<lambda>pair. classify (answers_true sat) cfg p pair" "new_tempPackageJson p"
              "collect_pairs (packageJson p)"]
  by (auto dest!: tempPackageJson_foldl simp: new_tempPackageJson_fields)

lemma tempPackageJson_rush_set:
  "tempPackageJson sat cfg p = Inr out \<Longrightarrow>
   set (entries (rushDependencies out)) \<subseteq>
     set (filter (\<lambda>pair. classify (answers_true sat) cfg p pair = LocalLink)
            (collect_pairs (packageJson p)))"
  using foldl_record_pair_rush_set
          [of "\<lambda>pair. classify (answers_true sat) cfg p pair" "new_tempPackageJson p"
              "collect_pairs (packageJson p)"]
  by (auto dest!: tempPackageJson_foldl simp: new_tempPackageJson_fields entries_simps)

section \<open>Classification of a pair\<close>

text \<open>
  Claim C7 fails as stated. \<^verbatim>\<open>web\<close> declares \<^verbatim>\<open>left-pad\<close>, which is no workspace
  project, with \<^verbatim>\<open>^1.0.0\<close> in \<^verbatim>\<open>devDependencies\<close> and with \<^verbatim>\<open>^1.3.0\<close> in
  \<^verbatim>\<open>dependencies\<close>, and \<^verbatim>\<open>__proto__\<close>, no workspace project either, in
  \<^verbatim>\<open>devDependencies\<close>. The saved manifest holds \<^verbatim>\<open>left-pad\<close> with the specifier of
  the later pair, so the pair from \<^verbatim>\<open>devDependencies\<close> is not recorded with its own
  specifier, and it holds no \<^verbatim>\<open>__proto__\<close> at all.
\<close>

theorem absent_name_counterexample:
  "collect_pairs (packageJson web_both_external) =
     [(''left-pad'', ''^1.0.0''), (''__proto__'', ''^1.0.0''), (''left-pad'', ''^1.3.0'')]
 \<and> getProjectByName (rushConfigOf [web_both_external, utils]) ''left-pad'' = None
 \<and> getProjectByName (rushConfigOf [web_both_external, utils]) ''__proto__'' = None
 \<and> tempPackageJson semver_fragment (rushConfigOf [web_both_external, utils]) web_both_external =
     Inr \<lparr>name = ''rush-web'', version = ''0.0.0'', private' = True, description = None,
          dependencies = [(''left-pad'', ''^1.3.0'')], optionalDependencies = None,
          rushDependencies = None\<rparr>"
  by code_simp

text \<open>
  Claim C7 as amended. A pair whose package name \<^const>\<open>getProjectByName\<close> does not
  find is classified external without a version test: the loop body makes the assignment
  of line 183, of the pair's specifier to \<^verbatim>\<open>dependencies\<close> under the pair's name, and
  leaves \<^verbatim>\<open>rushDependencies\<close> alone, so the name is never a key of
  \<^verbatim>\<open>rushDependencies\<close> in the saved manifest. For a name other than \<^verbatim>\<open>__proto__\<close> the
  assignment records the pair, and the saved \<^verbatim>\<open>dependencies\<close> hold for the name the
  specifier of the last collected pair of that name (the one from \<^verbatim>\<open>dependencies\<close> when
  \<^verbatim>\<open>devDependencies\<close> declares the name too), which is the pair's own specifier when
  no later pair has its name.
\<close>

theorem absent_name_recorded_as_regular_dependency:
  assumes "getProjectByName cfg n = None"
  shows "process_pair sat cfg p tmp (n, s) =
           Inr (tmp\<lparr>dependencies := obj_set n s (dependencies tmp)\<rparr>)
       \<and> (n \<noteq> ''__proto__'' \<longrightarrow>
            obj_get (obj_set n s (dependencies tmp)) n = Some s)
       \<and> (tempPackageJson sat cfg p = Inr manifest \<longrightarrow>
            n \<notin> set (obj_keys (entries (rushDependencies manifest)))
          \<and> (n \<noteq> ''__proto__'' \<longrightarrow>
               obj_get (dependencies manifest) n =
                 map_of (rev (collect_pairs (packageJson p))) n))"
proof -
  have ext: "classify isSat cfg p (n, s') = ExternalRegistry" for isSat s'
    using assms by (simp add: classify_def)
  have step: "process_pair sat cfg p tmp (n, s) =
                Inr (tmp\<lparr>dependencies := obj_set n s (dependencies tmp)\<rparr>)"
    using assms by (simp add: process_pair_def add_regular_def)
  have get: "obj_get (obj_set n s (dependencies tmp)) n = Some s" if "n \<noteq> ''__proto__''"
    using that by (rule obj_get_obj_set_same)
  have nokey: "n \<notin> set (obj_keys (entries (rushDependencies manifest)))"
    if "tempPackageJson sat cfg p = Inr manifest"
    using tempPackageJson_rush_set [OF that] ext by (auto simp: obj_keys_def)
  have final: "obj_get (dependencies manifest) n = map_of (rev (collect_pairs (packageJson p))) n"
    if "tempPackageJson sat cfg p = Inr manifest" "n \<noteq> ''__proto__''"
    using tempPackageJson_dependencies [OF that] ext
    by (simp add: map_of_rev_filter_all)
  from step get nokey final show ?thesis by blast
qed

theorem absent_name_recorded_as_regular_dependency_witness:
  "getProjectByName (rushConfigOf [web_linked, utils]) ''left-pad'' = None
 \<and> ''left-pad'' \<noteq> ''__proto__''
 \<and> tempPackageJson semver_fragment (rushConfigOf [web_linked, utils]) web_linked =
     Inr \<lparr>name = ''rush-web'', version = ''0.0.0'', private' = True, description = None,
          dependencies = [(''left-pad'', ''^1.3.0'')], optionalDependencies = None,
          rushDependencies = Some [(''utils'', ''^1.0.0'')]\<rparr>
 \<and> process_pair semver_fragment (rushConfigOf [web_linked, utils]) web_linked
       (new_tempPackageJson web_linked) (''left-pad'', ''^1.3.0'') =
     Inr ((new_tempPackageJson web_linked)
            \<lparr>dependencies :=
               obj_set ''left-pad'' ''^1.3.0'' (dependencies (new_tempPackageJson web_linked))\<rparr>)
 \<and> obj_get (obj_set ''left-pad'' ''^1.3.0'' (dependencies (new_tempPackageJson web_linked)))
       ''left-pad'' = Some ''^1.3.0''
 \<and> ''left-pad'' \<notin> set (obj_keys (entries (rushDependencies
       \<lparr>name = ''rush-web'', version = ''0.0.0'', private' = True, description = None,
        dependencies = [(''left-pad'', ''^1.3.0'')], optionalDependencies = None,
        rushDependencies = Some [(''utils'', ''^1.0.0'')]\<rparr>)))
 \<and> obj_get (dependencies
       \<lparr>name = ''rush-web'', version = ''0.0.0'', private' = True, description = None,
        dependencies = [(''left-pad'', ''^1.3.0'')], optionalDependencies = None,
        rushDependencies = Some [(''utils'', ''^1.0.0'')]\<rparr>) ''left-pad'' =
     map_of (rev (collect_pairs (packageJson web_linked))) ''left-pad''
 \<and> map_of (rev (collect_pairs (packageJson web_linked))) ''left-pad'' = Some ''^1.3.0''"
proof -
  let ?manifest = "\<lparr>name = ''rush-web'', version = ''0.0.0'', private' = True,
        description = None,
        dependencies = [(''left-pad'', ''^1.3.0'')], optionalDependencies = None,
        rushDependencies = Some [(''utils'', ''^1.0.0'')]\<rparr>"
  have absent: "getProjectByName (rushConfigOf [web_linked, utils]) ''left-pad'' = None"
    by code_simp
  have other: "''left-pad'' \<noteq> ''__proto__''"
    by simp
  have manifest: "tempPackageJson semver_fragment (rushConfigOf [web_linked, utils]) web_linked =
                    Inr ?manifest"
    by code_simp
  have last: "map_of (rev (collect_pairs (packageJson web_linked))) ''left-pad'' = Some ''^1.3.0''"
    by code_simp
  from absent_name_recorded_as_regular_dependency
         [where sat = semver_fragment and s = "''^1.3.0''" and p = web_linked
            and tmp = "new_tempPackageJson web_linked" and manifest = ?manifest, OF absent]
       absent other manifest last
  show ?thesis by blast
qed

text \<open>
  Claim C5. A pair whose package name is in \<^verbatim>\<open>cyclicDependencyProjects\<close> of the project
  is classified external whatever the version test would say, also when the test would
  throw: the test stands behind the exemption and is not reached. The loop body makes the
  assignment of line 183 and returns, \<^const>\<open>classify\<close> says external for every test, and
  the name is never a key of \<^verbatim>\<open>rushDependencies\<close> in the saved manifest.
\<close>

theorem cyclic_exemption_overrides_version_check:
  assumes "n \<in> cyclicDependencyProjects p"
  shows "process_pair sat cfg p tmp (n, s) =
           Inr (tmp\<lparr>dependencies := obj_set n s (dependencies tmp)\<rparr>)
       \<and> classify isSatisfied cfg p (n, s) = ExternalRegistry
       \<and> (tempPackageJson sat cfg p = Inr manifest \<longrightarrow>
            n \<notin> set (obj_keys (entries (rushDependencies manifest))))"
proof -
  have ext: "classify isSat cfg p (n, s') = ExternalRegistry" for isSat s'
    using assms by (simp add: classify_def split: option.splits)
  have step: "process_pair sat cfg p tmp (n, s) =
                Inr (tmp\<lparr>dependencies := obj_set n s (dependencies tmp)\<rparr>)"
    using assms by (simp add: process_pair_def add_regular_def split: option.splits)
  have nokey: "n \<notin> set (obj_keys (entries (rushDependencies manifest)))"
    if "tempPackageJson sat cfg p = Inr manifest"
    using tempPackageJson_rush_set [OF that] ext by (auto simp: obj_keys_def)
  from step ext nokey show ?thesis by blast
qed

theorem cyclic_exemption_overrides_version_check_witness:
  "''utils'' \<in> cyclicDependencyProjects web_exempt
 \<and> getProjectByName (rushConfigOf [web_exempt, utils]) ''utils'' = Some utils
 \<and> semver_fragment (PackageJson.version (packageJson utils)) ''^1.0.0'' = Inr True
 \<and> process_pair semver_fragment (rushConfigOf [web_exempt, utils]) web_exempt
       (new_tempPackageJson web_exempt) (''utils'', ''^1.0.0'') =
     Inr ((new_tempPackageJson web_exempt)\<lparr>dependencies := [(''utils'', ''^1.0.0'')]\<rparr>)
 \<and> classify (answers_true semver_fragment) (rushConfigOf [web_exempt, utils]) web_exempt
       (''utils'', ''^1.0.0'') = ExternalRegistry
 \<and> getProjectByName (rushConfigOf [web_exempt, utils_unversioned]) ''utils'' =
     Some utils_unversioned
 \<and> semver_fragment (PackageJson.version (packageJson utils_unversioned)) ''^1.0.0'' =
     Inl (TypeError ''Invalid Version: unversioned'')
 \<and> process_pair semver_fragment (rushConfigOf [web_exempt, utils_unversioned]) web_exempt
       (new_tempPackageJson web_exempt) (''utils'', ''^1.0.0'') =
     Inr ((new_tempPackageJson web_exempt)\<lparr>dependencies := [(''utils'', ''^1.0.0'')]\<rparr>)"
proof -
  have exempt: "''utils'' \<in> cyclicDependencyProjects web_exempt"
    by code_simp
  have present: "getProjectByName (rushConfigOf [web_exempt, utils]) ''utils'' = Some utils"
    by code_simp
  have compatible: "semver_fragment (PackageJson.version (packageJson utils)) ''^1.0.0'' = Inr True"
    by code_simp
  have present': "getProjectByName (rushConfigOf [web_exempt, utils_unversioned]) ''utils'' =
                    Some utils_unversioned"
    by code_simp
  have throws: "semver_fragment (PackageJson.version (packageJson utils_unversioned)) ''^1.0.0'' =
                  Inl (TypeError ''Invalid Version: unversioned'')"
    by code_simp
  have start: "obj_set ''utils'' ''^1.0.0'' (dependencies (new_tempPackageJson web_exempt)) =
               [(''utils'', ''^1.0.0'')]"
    by code_simp
  from cyclic_exemption_overrides_version_check
         [where sat = semver_fragment and isSatisfied = "answers_true semver_fragment"
            and cfg = "rushConfigOf [web_exempt, utils]"
            and tmp = "new_tempPackageJson web_exempt" and s = "''^1.0.0''", OF exempt]
       cyclic_exemption_overrides_version_check
         [where sat = semver_fragment and isSatisfied = "answers_true semver_fragment"
            and cfg = "rushConfigOf [web_exempt, utils_unversioned]"
            and tmp = "new_tempPackageJson web_exempt" and s = "''^1.0.0''", OF exempt]
       exempt present compatible present' throws start
  show ?thesis by simp
qed

text \<open>
  Claim C6 fails as stated, at three inputs. With \<^verbatim>\<open>utils\<close> declared as \<^verbatim>\<open>^1.0.0\<close> in
  \<^verbatim>\<open>devDependencies\<close> and as \<^verbatim>\<open>^1.2.0\<close> in \<^verbatim>\<open>dependencies\<close>, both satisfied by the
  workspace project, the saved \<^verbatim>\<open>rushDependencies\<close> hold the later specifier and not
  the one of the first pair. With \<^verbatim>\<open>^0.9.0\<close> and \<^verbatim>\<open>^1.0.0\<close> the second pair is linked
  while its name is a key of \<^verbatim>\<open>dependencies\<close> as well. And a satisfied dependency on a
  workspace project named \<^verbatim>\<open>__proto__\<close> leaves \<^verbatim>\<open>rushDependencies\<close> as the empty object.
\<close>

theorem linked_pair_counterexample:
  "collect_pairs (packageJson web_both_linked) = [(''utils'', ''^1.0.0''), (''utils'', ''^1.2.0'')]
 \<and> getProjectByName (rushConfigOf [web_both_linked, utils]) ''utils'' = Some utils
 \<and> ''utils'' \<notin> cyclicDependencyProjects web_both_linked
 \<and> semver_fragment (PackageJson.version (packageJson utils)) ''^1.0.0'' = Inr True
 \<and> tempPackageJson semver_fragment (rushConfigOf [web_both_linked, utils]) web_both_linked =
     Inr \<lparr>name = ''rush-web'', version = ''0.0.0'', private' = True, description = None,
          dependencies = [], optionalDependencies = None,
          rushDependencies = Some [(''utils'', ''^1.2.0'')]\<rparr>
 \<and> getProjectByName (rushConfigOf [web_dev_external, utils]) ''utils'' = Some utils
 \<and> ''utils'' \<notin> cyclicDependencyProjects web_dev_external
 \<and> (''utils'', ''^1.0.0'') \<in> set (collect_pairs (packageJson web_dev_external))
 \<and> tempPackageJson semver_fragment (rushConfigOf [web_dev_external, utils]) web_dev_external =
     Inr \<lparr>name = ''rush-web'', version = ''0.0.0'', private' = True, description = None,
          dependencies = [(''utils'', ''^0.9.0'')], optionalDependencies = None,
          rushDependencies = Some [(''utils'', ''^1.0.0'')]\<rparr>
 \<and> collect_pairs (packageJson web_proto) = [(''__proto__'', ''^1.0.0'')]
 \<and> getProjectByName (rushConfigOf [web_proto, proto]) ''__proto__'' = Some proto
 \<and> ''__proto__'' \<notin> cyclicDependencyProjects web_proto
 \<and> semver_fragment (PackageJson.version (packageJson proto)) ''^1.0.0'' = Inr True
 \<and> tempPackageJson semver_fragment (rushConfigOf [web_proto, proto]) web_proto =
     Inr \<lparr>name = ''rush-web'', version = ''0.0.0'', private' = True, description = None,
          dependencies = [], optionalDependencies = None,
          rushDependencies = Some []\<rparr>"
  by code_simp

text \<open>
  Claim C6 as amended. A pair whose package name is that of a workspace project, is not in
  \<^verbatim>\<open>cyclicDependencyProjects\<close>, and whose specifier that project's version satisfies, is
  linked locally: the loop body makes the assignment of line 176, of the pair's specifier
  to \<^verbatim>\<open>rushDependencies\<close> under the pair's name (creating the field if needed), and
  leaves \<^verbatim>\<open>dependencies\<close> alone. For a name other than \<^verbatim>\<open>__proto__\<close> the assignment
  records the pair, and the saved \<^verbatim>\<open>rushDependencies\<close> hold the pair's specifier when
  the pair is the last collected one of its name. The pair itself is never an entry of the
  saved \<^verbatim>\<open>dependencies\<close>, and its name is not a key of them when every collected pair
  of that name is linked.
\<close>

theorem satisfied_local_project_is_linked:
  assumes "getProjectByName cfg n = Some localProject"
    and "n \<notin> cyclicDependencyProjects p"
    and "sat (PackageJson.version (packageJson localProject)) s = Inr True"
  shows "process_pair sat cfg p tmp (n, s) =
           Inr (tmp\<lparr>rushDependencies :=
                      Some (obj_set n s (entries (rushDependencies tmp)))\<rparr>)
       \<and> (n \<noteq> ''__proto__'' \<longrightarrow>
            obj_get (obj_set n s (entries (rushDependencies tmp))) n = Some s)
       \<and> (tempPackageJson sat cfg p = Inr manifest \<longrightarrow>
            (n, s) \<notin> set (dependencies manifest)
          \<and> (n \<noteq> ''__proto__'' \<and> map_of (rev (collect_pairs (packageJson p))) n = Some s \<longrightarrow>
               obj_get (entries (rushDependencies manifest)) n = Some s)
          \<and> (list_all (\<lambda>pair. classify (answers_true sat) cfg p pair = LocalLink)
                (filter (\<lambda>pair. fst pair = n) (collect_pairs (packageJson p))) \<longrightarrow>
               n \<notin> set (obj_keys (dependencies manifest))))"
proof -
  have loc: "classify (answers_true sat) cfg p (n, s) = LocalLink"
    using assms by (simp add: classify_def answers_true_def)
  have step: "process_pair sat cfg p tmp (n, s) =
                Inr (tmp\<lparr>rushDependencies :=
                           Some (obj_set n s (entries (rushDependencies tmp)))\<rparr>)"
    using assms by (simp add: process_pair_def add_rush_def entries_def)
  have get: "obj_get (obj_set n s (entries (rushDependencies tmp))) n = Some s"
    if "n \<noteq> ''__proto__''"
    using that by (rule obj_get_obj_set_same)
  have notreg: "(n, s) \<notin> set (dependencies manifest)"
    if "tempPackageJson sat cfg p = Inr manifest"
    using tempPackageJson_dependencies_set [OF that] loc by auto
  have last: "obj_get (entries (rushDependencies manifest)) n = Some s"
    if "tempPackageJson sat cfg p = Inr manifest" "n \<noteq> ''__proto__''"
       "map_of (rev (collect_pairs (packageJson p))) n = Some s"
    using tempPackageJson_rushDependencies [OF that(1,2)] that(3) loc
    by (simp add: map_of_rev_filter_last)
  have nokey: "n \<notin> set (obj_keys (dependencies manifest))"
    if "tempPackageJson sat cfg p = Inr manifest"
       "list_all (\<lambda>pair. classify (answers_true sat) cfg p pair = LocalLink)
          (filter (\<lambda>pair. fst pair = n) (collect_pairs (packageJson p)))"
    using tempPackageJson_dependencies_set [OF that(1)] that(2)
    by (auto simp: obj_keys_def list_all_iff)
  from step get notreg last nokey show ?thesis by blast
qed

theorem satisfied_local_project_is_linked_witness:
  "getProjectByName (rushConfigOf [web_linked, utils]) ''utils'' = Some utils
 \<and> ''utils'' \<notin> cyclicDependencyProjects web_linked
 \<and> semver_fragment (PackageJson.version (packageJson utils)) ''^1.0.0'' = Inr True
 \<and> tempPackageJson semver_fragment (rushConfigOf [web_linked, utils]) web_linked =
     Inr \<lparr>name = ''rush-web'', version = ''0.0.0'', private' = True, description = None,
          dependencies = [(''left-pad'', ''^1.3.0'')], optionalDependencies = None,
          rushDependencies = Some [(''utils'', ''^1.0.0'')]\<rparr>
 \<and> ''utils'' \<noteq> ''__proto__''
 \<and> map_of (rev (collect_pairs (packageJson web_linked))) ''utils'' = Some ''^1.0.0''
 \<and> list_all (\<lambda>pair. classify (answers_true semver_fragment) (rushConfigOf [web_linked, utils])
                 web_linked pair = LocalLink)
       (filter (\<lambda>pair. fst pair = ''utils'') (collect_pairs (packageJson web_linked)))
 \<and> process_pair semver_fragment (rushConfigOf [web_linked, utils]) web_linked
       (new_tempPackageJson web_linked) (''utils'', ''^1.0.0'') =
     Inr ((new_tempPackageJson web_linked)
            \<lparr>rushDependencies :=
               Some (obj_set ''utils'' ''^1.0.0''
                       (entries (rushDependencies (new_tempPackageJson web_linked))))\<rparr>)
 \<and> obj_get (obj_set ''utils'' ''^1.0.0''
               (entries (rushDependencies (new_tempPackageJson web_linked)))) ''utils'' =
     Some ''^1.0.0''
 \<and> (''utils'', ''^1.0.0'') \<notin> set (dependencies
       \<lparr>name = ''rush-web'', version = ''0.0.0'', private' = True, description = None,
        dependencies = [(''left-pad'', ''^1.3.0'')], optionalDependencies = None,
        rushDependencies = Some [(''utils'', ''^1.0.0'')]\<rparr>)
 \<and> obj_get (entries (rushDependencies
       \<lparr>name = ''rush-web'', version = ''0.0.0'', private' = True, description = None,
        dependencies = [(''left-pad'', ''^1.3.0'')], optionalDependencies = None,
        rushDependencies = Some [(''utils'', ''^1.0.0'')]\<rparr>)) ''utils'' = Some ''^1.0.0''
 \<and> ''utils'' \<notin> set (obj_keys (dependencies
       \<lparr>name = ''rush-web'', version = ''0.0.0'', private' = True, description = None,
        dependencies = [(''left-pad'', ''^1.3.0'')], optionalDependencies = None,
        rushDependencies = Some [(''utils'', ''^1.0.0'')]\<rparr>))"
proof -
  let ?manifest = "\<lparr>name = ''rush-web'', version = ''0.0.0'', private' = True,
        description = None,
        dependencies = [(''left-pad'', ''^1.3.0'')], optionalDependencies = None,
        rushDependencies = Some [(''utils'', ''^1.0.0'')]\<rparr>"
  have present: "getProjectByName (rushConfigOf [web_linked, utils]) ''utils'' = Some utils"
    by code_simp
  have free: "''utils'' \<notin> cyclicDependencyProjects web_linked"
    by code_simp
  have compatible: "semver_fragment (PackageJson.version (packageJson utils)) ''^1.0.0'' = Inr True"
    by code_simp
  have manifest: "tempPackageJson semver_fragment (rushConfigOf [web_linked, utils]) web_linked =
                    Inr ?manifest"
    by code_simp
  have other: "''utils'' \<noteq> ''__proto__''"
    by simp
  have last: "map_of (rev (collect_pairs (packageJson web_linked))) ''utils'' = Some ''^1.0.0''"
    by code_simp
  have alike: "list_all (\<lambda>pair. classify (answers_true semver_fragment)
                 (rushConfigOf [web_linked, utils]) web_linked pair = LocalLink)
       (filter (\<lambda>pair. fst pair = ''utils'') (collect_pairs (packageJson web_linked)))"
    by code_simp
  from satisfied_local_project_is_linked
         [where sat = semver_fragment and s = "''^1.0.0''"
            and tmp = "new_tempPackageJson web_linked" and manifest = ?manifest,
          OF present free compatible]
       present free compatible manifest other last alike
  show ?thesis by blast
qed

text \<open>
  Claim C10. The saved manifest has no \<^verbatim>\<open>rushDependencies\<close> field exactly when no
  collected pair of the project is classified as a local link; and after any number \<open>k\<close>
  of pairs the field is still absent exactly when none of these \<open>k\<close> pairs was a local
  link, so the field appears with the first local link.
\<close>

theorem rushDependencies_absent_without_local_link:
  "(tempPackageJson sat cfg p = Inr manifest \<longrightarrow>
      (rushDependencies manifest = None \<longleftrightarrow>
         list_all (\<lambda>pair. classify (answers_true sat) cfg p pair = ExternalRegistry)
           (collect_pairs (packageJson p))))
 \<and> (process_pairs sat cfg p (new_tempPackageJson p)
        (take k (collect_pairs (packageJson p))) = Inr tmp \<longrightarrow>
      (rushDependencies tmp = None \<longleftrightarrow>
         list_all (\<lambda>pair. classify (answers_true sat) cfg p pair = ExternalRegistry)
           (take k (collect_pairs (packageJson p)))))"
proof -
  have "rushDependencies out = None \<longleftrightarrow>
          list_all (\<lambda>pair. classify (answers_true sat) cfg p pair = ExternalRegistry) ps"
    if "process_pairs sat cfg p (new_tempPackageJson p) ps = Inr out" for ps out
    using process_pairs_foldl [OF that]
    by (simp add: foldl_record_pair_rush_absent new_tempPackageJson_fields)
  then show ?thesis
    by (simp add: tempPackageJson_def)
qed

theorem rushDependencies_absent_without_local_link_witness:
  "tempPackageJson semver_fragment (rushConfigOf [web_malformed, utils]) web_malformed =
     Inr \<lparr>name = ''rush-web'', version = ''0.0.0'', private' = True,
          description = None, dependencies = [(''utils'', ''not-a-version'')],
          optionalDependencies = None, rushDependencies = None\<rparr>
 \<and> list_all (\<lambda>pair. classify (answers_true semver_fragment)
                 (rushConfigOf [web_malformed, utils]) web_malformed pair = ExternalRegistry)
       (collect_pairs (packageJson web_malformed))
 \<and> tempPackageJson semver_fragment (rushConfigOf [web_linked, utils]) web_linked =
     Inr \<lparr>name = ''rush-web'', version = ''0.0.0'', private' = True, description = None,
          dependencies = [(''left-pad'', ''^1.3.0'')], optionalDependencies = None,
          rushDependencies = Some [(''utils'', ''^1.0.0'')]\<rparr>
 \<and> \<not> list_all (\<lambda>pair. classify (answers_true semver_fragment)
                 (rushConfigOf [web_linked, utils]) web_linked pair = ExternalRegistry)
       (collect_pairs (packageJson web_linked))"
proof -
  let ?none = "\<lparr>name = ''rush-web'', version = ''0.0.0'', private' = True,
          description = None, dependencies = [(''utils'', ''not-a-version'')],
          optionalDependencies = None, rushDependencies = None\<rparr>"
  let ?some = "\<lparr>name = ''rush-web'', version = ''0.0.0'', private' = True,
        description = None,
        dependencies = [(''left-pad'', ''^1.3.0'')], optionalDependencies = None,
        rushDependencies = Some [(''utils'', ''^1.0.0'')]\<rparr>"
  have none: "tempPackageJson semver_fragment (rushConfigOf [web_malformed, utils])
                web_malformed = Inr ?none"
    by code_simp
  have some: "tempPackageJson semver_fragment (rushConfigOf [web_linked, utils]) web_linked =
                Inr ?some"
    by code_simp
  have absent: "rushDependencies ?none = None" and present: "rushDependencies ?some \<noteq> None"
    by simp_all
  from rushDependencies_absent_without_local_link
         [where sat = semver_fragment and cfg = "rushConfigOf [web_malformed, utils]"
            and p = web_malformed and manifest = ?none and k = 0
            and tmp = "new_tempPackageJson web_malformed"]
       rushDependencies_absent_without_local_link
         [where sat = semver_fragment and cfg = "rushConfigOf [web_linked, utils]"
            and p = web_linked and manifest = ?some and k = 0
            and tmp = "new_tempPackageJson web_linked"]
       none some absent present
  show ?thesis by blast
qed

section \<open>A name declared twice\<close>

text \<open>
  Claim C1 fails on the code. \<^verbatim>\<open>web\<close> declares \<^verbatim>\<open>utils\<close> with \<^verbatim>\<open>^0.9.0\<close> in
  \<^verbatim>\<open>devDependencies\<close> and with \<^verbatim>\<open>^1.0.0\<close> in \<^verbatim>\<open>dependencies\<close>, and the workspace
  project \<^verbatim>\<open>utils\<close> has version \<^verbatim>\<open>1.2.0\<close>. The development pair is not satisfied and is
  assigned to \<^verbatim>\<open>dependencies\<close>; the runtime pair is satisfied and is assigned to
  \<^verbatim>\<open>rushDependencies\<close>, so it overwrites nothing, and the saved manifest keeps
  \<^verbatim>\<open>utils\<close> with the development specifier in \<^verbatim>\<open>dependencies\<close>.
\<close>

theorem dev_specifier_kept_beside_runtime_specifier:
  "collect_pairs (packageJson web_dev_external) = [(''utils'', ''^0.9.0''), (''utils'', ''^1.0.0'')]
 \<and> tempPackageJson semver_fragment (rushConfigOf [web_dev_external, utils]) web_dev_external =
     Inr \<lparr>name = ''rush-web'', version = ''0.0.0'', private' = True, description = None,
          dependencies = [(''utils'', ''^0.9.0'')],
          optionalDependencies = None,
          rushDependencies = Some [(''utils'', ''^1.0.0'')]\<rparr>"
  by code_simp

text \<open>
  Claim C2 fails on the code. \<^verbatim>\<open>web\<close> declares \<^verbatim>\<open>utils\<close> with \<^verbatim>\<open>^1.0.0\<close> in
  \<^verbatim>\<open>devDependencies\<close> and with \<^verbatim>\<open>^2.0.0\<close> in \<^verbatim>\<open>dependencies\<close>, and the workspace
  project \<^verbatim>\<open>utils\<close> has version \<^verbatim>\<open>1.2.0\<close>. The development pair is linked locally and
  the runtime pair is not, so the one name \<^verbatim>\<open>utils\<close> is a key both of
  \<^verbatim>\<open>rushDependencies\<close> and of \<^verbatim>\<open>dependencies\<close> in the saved manifest.
\<close>

theorem name_in_both_maps:
  "collect_pairs (packageJson web_dev_linked) = [(''utils'', ''^1.0.0''), (''utils'', ''^2.0.0'')]
 \<and> tempPackageJson semver_fragment (rushConfigOf [web_dev_linked, utils]) web_dev_linked =
     Inr \<lparr>name = ''rush-web'', version = ''0.0.0'', private' = True, description = None,
          dependencies = [(''utils'', ''^2.0.0'')],
          optionalDependencies = None,
          rushDependencies = Some [(''utils'', ''^1.0.0'')]\<rparr>"
  by code_simp

section \<open>Optional dependencies\<close>

text \<open>
  Claim C9 fails as stated. A project whose \<^verbatim>\<open>package.json\<close> has the empty object as
  \<^verbatim>\<open>optionalDependencies\<close> gets the field in its saved manifest, empty: the guard at
  line 132 tests that the field is there, not that it has entries.
\<close>

theorem empty_optionalDependencies_counterexample:
  "PackageJson.optionalDependencies (packageJson web_no_optional) = Some []
 \<and> tempPackageJson semver_fragment (rushConfigOf [web_no_optional]) web_no_optional =
     Inr \<lparr>name = ''rush-web'', version = ''0.0.0'', private' = True, description = None,
          dependencies = [(''left-pad'', ''^1.3.0'')], optionalDependencies = Some [],
          rushDependencies = None\<rparr>"
  by code_simp

lemma collect_pairs_optionalDependencies:
  "collect_pairs (pj\<lparr>PackageJson.optionalDependencies := other\<rparr>) = collect_pairs pj"
  by (simp add: collect_pairs_def)

lemma process_pair_optionalDependencies:
  "process_pair sat cfg p (tmp\<lparr>IPackageJson.optionalDependencies := x\<rparr>) pair =
     map_sum id (\<lambda>out. out\<lparr>IPackageJson.optionalDependencies := x\<rparr>)
       (process_pair sat cfg p tmp pair)"
  by (simp add: process_pair_def add_regular_def add_rush_def split: option.splits sum.splits)

lemma process_pairs_optionalDependencies:
  "process_pairs sat cfg p (tmp\<lparr>IPackageJson.optionalDependencies := x\<rparr>) ps =
     map_sum id (\<lambda>out. out\<lparr>IPackageJson.optionalDependencies := x\<rparr>)
       (process_pairs sat cfg p tmp ps)"
proof (induction ps arbitrary: tmp)
  case Nil
  show ?case by simp
next
  case (Cons pair ps)
  show ?case
    by (cases "process_pair sat cfg p tmp pair")
       (simp_all add: process_pair_optionalDependencies Cons.IH)
qed

text \<open>
  Claim C9 as amended. The \<^verbatim>\<open>optionalDependencies\<close> of the saved manifest is the
  \<^verbatim>\<open>optionalDependencies\<close> of the project's \<^verbatim>\<open>package.json\<close>: absent when that field is
  absent, and the same object otherwise, the empty one included. The optional
  dependencies are not classified: replacing them by anything else changes neither
  \<^verbatim>\<open>dependencies\<close> nor \<^verbatim>\<open>rushDependencies\<close> of the saved manifest, nor whether the loop
  over the pairs throws.
\<close>

theorem optionalDependencies_copied_when_present:
  "(tempPackageJson sat cfg p = Inr manifest \<longrightarrow>
      IPackageJson.optionalDependencies manifest =
        PackageJson.optionalDependencies (packageJson p))
 \<and> map_sum id dependencies
      (tempPackageJson sat cfg
         (p\<lparr>packageJson := (packageJson p)\<lparr>PackageJson.optionalDependencies := other\<rparr>\<rparr>)) =
     map_sum id dependencies (tempPackageJson sat cfg p)
 \<and> map_sum id rushDependencies
      (tempPackageJson sat cfg
         (p\<lparr>packageJson := (packageJson p)\<lparr>PackageJson.optionalDependencies := other\<rparr>\<rparr>)) =
     map_sum id rushDependencies (tempPackageJson sat cfg p)"
proof -
  let ?p = "p\<lparr>packageJson := (packageJson p)\<lparr>PackageJson.optionalDependencies := other\<rparr>\<rparr>"
  have body: "process_pair sat cfg ?p = process_pair sat cfg p"
    by (simp add: fun_eq_iff process_pair_def split: option.splits)
  have loop: "process_pairs sat cfg ?p tmp ps = process_pairs sat cfg p tmp ps" for tmp ps
    by (induction ps arbitrary: tmp) (simp_all add: body split: sum.splits)
  have start: "new_tempPackageJson ?p =
                 (new_tempPackageJson p)\<lparr>IPackageJson.optionalDependencies := other\<rparr>"
    by (simp add: new_tempPackageJson_def)
  have changed: "tempPackageJson sat cfg ?p =
          map_sum id (\<lambda>out. out\<lparr>IPackageJson.optionalDependencies := other\<rparr>)
            (tempPackageJson sat cfg p)"
    by (simp add: tempPackageJson_def loop start collect_pairs_optionalDependencies
          process_pairs_optionalDependencies)
  have copied: "IPackageJson.optionalDependencies manifest =
                  PackageJson.optionalDependencies (packageJson p)"
    if "tempPackageJson sat cfg p = Inr manifest"
    using tempPackageJson_foldl [OF that]
    by (simp add: foldl_record_pair_fields new_tempPackageJson_fields)
  from changed have "map_sum id dependencies (tempPackageJson sat cfg ?p) =
                       map_sum id dependencies (tempPackageJson sat cfg p)"
    and "map_sum id rushDependencies (tempPackageJson sat cfg ?p) =
           map_sum id rushDependencies (tempPackageJson sat cfg p)"
    by (cases "tempPackageJson sat cfg p"; simp)+
  with copied show ?thesis by blast
qed

theorem optionalDependencies_copied_when_present_witness:
  "tempPackageJson semver_fragment (rushConfigOf [web_no_optional]) web_no_optional =
     Inr \<lparr>name = ''rush-web'', version = ''0.0.0'', private' = True, description = None,
          dependencies = [(''left-pad'', ''^1.3.0'')], optionalDependencies = Some [],
          rushDependencies = None\<rparr>
 \<and> IPackageJson.optionalDependencies
       \<lparr>name = ''rush-web'', version = ''0.0.0'', private' = True, description = None,
        dependencies = [(''left-pad'', ''^1.3.0'')], optionalDependencies = Some [],
        rushDependencies = None\<rparr> =
     PackageJson.optionalDependencies (packageJson web_no_optional)
 \<and> tempPackageJson semver_fragment (rushConfigOf [web_linked, utils]) web_linked =
     Inr \<lparr>name = ''rush-web'', version = ''0.0.0'', private' = True, description = None,
          dependencies = [(''left-pad'', ''^1.3.0'')], optionalDependencies = None,
          rushDependencies = Some [(''utils'', ''^1.0.0'')]\<rparr>
 \<and> IPackageJson.optionalDependencies
       \<lparr>name = ''rush-web'', version = ''0.0.0'', private' = True, description = None,
        dependencies = [(''left-pad'', ''^1.3.0'')], optionalDependencies = None,
        rushDependencies = Some [(''utils'', ''^1.0.0'')]\<rparr> =
     PackageJson.optionalDependencies (packageJson web_linked)"
proof -
  let ?empty = "\<lparr>name = ''rush-web'', version = ''0.0.0'', private' = True,
        description = None,
        dependencies = [(''left-pad'', ''^1.3.0'')], optionalDependencies = Some [],
        rushDependencies = None\<rparr>"
  let ?missing = "\<lparr>name = ''rush-web'', version = ''0.0.0'', private' = True,
        description = None,
        dependencies = [(''left-pad'', ''^1.3.0'')], optionalDependencies = None,
        rushDependencies = Some [(''utils'', ''^1.0.0'')]\<rparr>"
  have empty: "tempPackageJson semver_fragment (rushConfigOf [web_no_optional]) web_no_optional =
                 Inr ?empty"
    by code_simp
  have missing: "tempPackageJson semver_fragment (rushConfigOf [web_linked, utils]) web_linked =
                   Inr ?missing"
    by code_simp
  from optionalDependencies_copied_when_present
         [where sat = semver_fragment and cfg = "rushConfigOf [web_no_optional]"
            and p = web_no_optional and manifest = ?empty]
       optionalDependencies_copied_when_present
         [where sat = semver_fragment and cfg = "rushConfigOf [web_linked, utils]"
            and p = web_linked and manifest = ?missing]
       empty missing
  show ?thesis by blast
qed

section \<open>The loop over the projects\<close>

lemma create_temp_projects_append:
  "create_temp_projects sat fs cfg (ps @ qs) st =
     (case create_temp_projects sat fs cfg ps st of
        Inl thrown \<Rightarrow> Inl thrown
      | Inr st' \<Rightarrow> create_temp_projects sat fs cfg qs st')"
  by (induction ps arbitrary: st) (auto split: option.splits sum.splits)

lemma create_temp_projects_completes:
  "create_temp_projects sat fs cfg ps st = Inr st' \<Longrightarrow>
   folders st' = folders st @ map tempProjectName ps
   \<and> console st' = console st
   \<and> (\<exists>ms. saved st' = saved st @ ms \<and> list_all2 (saved_for sat cfg) ps ms)"
proof (induction ps arbitrary: st)
  case Nil
  then show ?case by simp
next
  case (Cons p ps)
  from Cons.prems obtain m where made: "mkdirSync fs (folders st) (tempProjectName p) = None"
    and m: "tempPackageJson sat cfg p = Inr m"
    by (auto split: option.splits sum.splits)
  let ?st = "st\<lparr>folders := folders st @ [tempProjectName p],
                 commonPackageJson :=
                   (commonPackageJson st)
                     \<lparr>dependencies :=
                        obj_set (tempProjectName p)
                          (''file:./temp_modules/'' @ tempProjectName p)
                          (dependencies (commonPackageJson st))\<rparr>,
                 saved := saved st @ [(TempPackageJsonFile (tempProjectName p), m)]\<rparr>"
  from Cons.prems made m have "create_temp_projects sat fs cfg ps ?st = Inr st'"
    by simp
  from Cons.IH [OF this] obtain ms where
    "folders st' = folders ?st @ map tempProjectName ps"
    "console st' = console ?st"
    "saved st' = saved ?st @ ms" "list_all2 (saved_for sat cfg) ps ms"
    by blast
  with m have "folders st' = folders st @ map tempProjectName (p # ps)"
    and "console st' = console st"
    and "saved st' = saved st @ (TempPackageJsonFile (tempProjectName p), m) # ms"
    and "list_all2 (saved_for sat cfg) (p # ps) ((TempPackageJsonFile (tempProjectName p), m) # ms)"
    by (simp_all add: saved_for_def)
  then show ?case by blast
qed

lemma create_temp_projects_throws:
  "create_temp_projects sat fs cfg ps st = Inl (thrown, st') \<Longrightarrow>
   console st' = console st
   \<and> fst ` set (saved st') \<subseteq> fst ` set (saved st) \<union> TempPackageJsonFile ` tempProjectName ` set ps"
proof (induction ps arbitrary: st)
  case Nil
  then show ?case by simp
next
  case (Cons p ps)
  show ?case
  proof (cases "mkdirSync fs (folders st) (tempProjectName p)")
    case (Some e)
    with Cons.prems show ?thesis by auto
  next
    case None
    show ?thesis
    proof (cases "tempPackageJson sat cfg p")
      case (Inl e)
      with None Cons.prems show ?thesis by auto
    next
      case (Inr m)
      let ?st = "st\<lparr>folders := folders st @ [tempProjectName p],
                 commonPackageJson :=
                   (commonPackageJson st)
                     \<lparr>dependencies :=
                        obj_set (tempProjectName p)
                          (''file:./temp_modules/'' @ tempProjectName p)
                          (dependencies (commonPackageJson st))\<rparr>,
                 saved := saved st @ [(TempPackageJsonFile (tempProjectName p), m)]\<rparr>"
      from Cons.prems None Inr
      have "create_temp_projects sat fs cfg ps ?st = Inl (thrown, st')"
        by simp
      from Cons.IH [OF this] show ?thesis
        by auto
    qed
  qed
qed

lemma create_temp_projects_repeated:
  "tempProjectName q \<in> set (folders st) \<Longrightarrow>
   create_temp_projects sat fs cfg (q # rest) st = Inl (EEXIST (tempProjectName q), st)"
  by (simp add: mkdirSync_def)

lemma initial_state_fields:
  "saved initial_state = []"
  "folders initial_state = []"
  "console initial_state =
     [''Creating a clean common/temp_modules folder'', ''Creating temp projects...'']"
  by (simp_all add: initial_state_def)

lemma onExecute_console:
  "console (outcome_state (onExecute sat fs cfg)) =
     [''Creating a clean common/temp_modules folder'', ''Creating temp projects...'']
 \<or> console (outcome_state (onExecute sat fs cfg)) =
     [''Creating a clean common/temp_modules folder'', ''Creating temp projects...'',
      ''Writing common/package.json'']"
proof (cases "create_temp_projects sat fs cfg (projects cfg) initial_state")
  case (Inl failure)
  obtain thrown st where "failure = (thrown, st)"
    by (cases failure)
  with Inl create_temp_projects_throws [of sat fs cfg "projects cfg" initial_state thrown st]
  show ?thesis
    by (simp add: onExecute_def outcome_state_def initial_state_fields)
next
  case (Inr st)
  with create_temp_projects_completes [OF Inr] show ?thesis
    by (simp add: onExecute_def outcome_state_def initial_state_fields)
qed

lemma onExecute_repeated_name:
  assumes "projects cfg = pre @ q # rest"
    and "tempProjectName q \<in> tempProjectName ` set pre"
  shows "\<not> completed (onExecute sat fs cfg)"
    and "CommonPackageJsonFile \<notin> fst ` set (saved (outcome_state (onExecute sat fs cfg)))"
    and "create_temp_projects sat fs cfg pre initial_state = Inr st \<Longrightarrow>
           onExecute sat fs cfg = Inl (EEXIST (tempProjectName q), st)
           \<and> list_all2 (saved_for sat cfg) pre (saved st)"
proof -
  have throws: "\<exists>thrown st'. create_temp_projects sat fs cfg (projects cfg) initial_state =
                  Inl (thrown, st')"
  proof (cases "create_temp_projects sat fs cfg pre initial_state")
    case (Inl failure)
    then show ?thesis
      by (cases failure) (simp add: assms(1) create_temp_projects_append)
  next
    case (Inr st')
    from create_temp_projects_completes [OF Inr] assms(2)
    have "tempProjectName q \<in> set (folders st')"
      by (simp add: initial_state_fields)
    with Inr show ?thesis
      by (simp add: assms(1) create_temp_projects_append mkdirSync_def)
  qed
  then obtain thrown st' where
    thrown: "create_temp_projects sat fs cfg (projects cfg) initial_state = Inl (thrown, st')"
    by blast
  then show "\<not> completed (onExecute sat fs cfg)"
    by (simp add: onExecute_def completed_def)
  from create_temp_projects_throws [OF thrown] thrown
  show "CommonPackageJsonFile \<notin> fst ` set (saved (outcome_state (onExecute sat fs cfg)))"
    by (auto simp: onExecute_def outcome_state_def initial_state_fields)
  show "onExecute sat fs cfg = Inl (EEXIST (tempProjectName q), st)
           \<and> list_all2 (saved_for sat cfg) pre (saved st)"
    if run: "create_temp_projects sat fs cfg pre initial_state = Inr st"
  proof -
    from create_temp_projects_completes [OF run] assms(2)
    have "tempProjectName q \<in> set (folders st)"
      and "list_all2 (saved_for sat cfg) pre (saved st)"
      by (auto simp: initial_state_fields)
    with run show ?thesis
      by (simp add: onExecute_def assms(1) create_temp_projects_append mkdirSync_def)
  qed
qed

lemma process_pair_name:
  "process_pair sat cfg p (tmp\<lparr>name := x\<rparr>) pair =
     map_sum id (\<lambda>out. out\<lparr>name := x\<rparr>) (process_pair sat cfg p tmp pair)"
  by (simp add: process_pair_def add_regular_def add_rush_def split: option.splits sum.splits)

lemma process_pairs_name:
  "process_pairs sat cfg p (tmp\<lparr>name := x\<rparr>) ps =
     map_sum id (\<lambda>out. out\<lparr>name := x\<rparr>) (process_pairs sat cfg p tmp ps)"
proof (induction ps arbitrary: tmp)
  case Nil
  show ?case by simp
next
  case (Cons pair ps)
  show ?case
    by (cases "process_pair sat cfg p tmp pair")
       (simp_all add: process_pair_name Cons.IH)
qed

lemma tempPackageJson_tempProjectName:
  "tempPackageJson sat cfg (p\<lparr>tempProjectName := t\<rparr>) =
     map_sum id (\<lambda>out. out\<lparr>name := t\<rparr>) (tempPackageJson sat cfg p)"
proof -
  let ?p = "p\<lparr>tempProjectName := t\<rparr>"
  have body: "process_pair sat cfg ?p = process_pair sat cfg p"
    by (simp add: fun_eq_iff process_pair_def split: option.splits)
  have loop: "process_pairs sat cfg ?p tmp ps = process_pairs sat cfg p tmp ps" for tmp ps
    by (induction ps arbitrary: tmp) (simp_all add: body split: sum.splits)
  have start: "new_tempPackageJson ?p = (new_tempPackageJson p)\<lparr>name := t\<rparr>"
    by (simp add: new_tempPackageJson_def)
  show ?thesis
    by (simp add: tempPackageJson_def loop start process_pairs_name)
qed

text \<open>
  Claim C3 fails as stated. Two projects with the temp project name \<^verbatim>\<open>rush-shared\<close>:
  the run throws at the second \<^verbatim>\<open>mkdirSync\<close>, when the manifest of the first project is
  saved already, so one manifest has been emitted, not none. And a project whose
  dependency is named like its own temp project, \<^verbatim>\<open>rush-web\<close>: the run completes and
  saves the manifest with that dependency.
\<close>

theorem collision_counterexample:
  "tempProjectName shared_a = tempProjectName shared_b
 \<and> onExecute semver_fragment writable_folder (rushConfigOf [shared_a, shared_b]) =
     Inl (EEXIST ''rush-shared'',
          \<lparr>commonPackageJson =
             \<lparr>name = ''rush-common'', version = ''0.0.0'', private' = True,
              description = Some ''Temporary file generated by the Rush tool'',
              dependencies = [(''rush-shared'', ''file:./temp_modules/rush-shared'')],
              optionalDependencies = None, rushDependencies = None\<rparr>,
           folders = [''rush-shared''],
           saved =
             [(TempPackageJsonFile ''rush-shared'',
               \<lparr>name = ''rush-shared'', version = ''0.0.0'', private' = True,
                description = None, dependencies = [],
                optionalDependencies = None, rushDependencies = None\<rparr>)],
           console = [''Creating a clean common/temp_modules folder'',
                      ''Creating temp projects...'']\<rparr>)
 \<and> collect_pairs (packageJson web_self_named) = [(tempProjectName web_self_named, ''^1.0.0'')]
 \<and> onExecute semver_fragment writable_folder (rushConfigOf [web_self_named]) =
     Inr \<lparr>commonPackageJson =
            \<lparr>name = ''rush-common'', version = ''0.0.0'', private' = True,
             description = Some ''Temporary file generated by the Rush tool'',
             dependencies = [(''rush-web'', ''file:./temp_modules/rush-web'')],
             optionalDependencies = None, rushDependencies = None\<rparr>,
          folders = [''rush-web''],
          saved =
            [(TempPackageJsonFile ''rush-web'',
              \<lparr>name = ''rush-web'', version = ''0.0.0'', private' = True,
               description = None, dependencies = [(''rush-web'', ''^1.0.0'')],
               optionalDependencies = None, rushDependencies = None\<rparr>),
             (CommonPackageJsonFile,
              \<lparr>name = ''rush-common'', version = ''0.0.0'', private' = True,
               description = Some ''Temporary file generated by the Rush tool'',
               dependencies = [(''rush-web'', ''file:./temp_modules/rush-web'')],
               optionalDependencies = None, rushDependencies = None\<rparr>)],
          console = [''Creating a clean common/temp_modules folder'',
                     ''Creating temp projects...'', ''Writing common/package.json'']\<rparr>"
  by code_simp

text \<open>
  Claim C3 as amended. When a project of the sequence has the temp project name of an
  earlier one, the run fails and does not save the common manifest; and if nothing has
  thrown before that project is reached, the run throws \<^verbatim>\<open>EEXIST\<close> there, with the
  manifests of all earlier projects saved. A dependency named like the project's own temp
  project is no failure condition: the temp project name is not compared with anything,
  it only becomes the \<^verbatim>\<open>name\<close> of the manifest.
\<close>

theorem repeated_tempProjectName_fails_after_partial_output:
  assumes "projects cfg = pre @ q # rest"
    and "tempProjectName q \<in> tempProjectName ` set pre"
  shows "\<not> completed (onExecute sat fs cfg)
       \<and> CommonPackageJsonFile \<notin> fst ` set (saved (outcome_state (onExecute sat fs cfg)))
       \<and> (create_temp_projects sat fs cfg pre initial_state = Inr st \<longrightarrow>
            onExecute sat fs cfg = Inl (EEXIST (tempProjectName q), st)
          \<and> list_all2 (saved_for sat cfg) pre (saved st))
       \<and> tempPackageJson sat cfg (p\<lparr>tempProjectName := t\<rparr>) =
           map_sum id (\<lambda>manifest. manifest\<lparr>name := t\<rparr>) (tempPackageJson sat cfg p)"
  using onExecute_repeated_name [OF assms, of sat fs]
    tempPackageJson_tempProjectName [where sat = sat and cfg = cfg and p = p and t = t]
  by blast

theorem repeated_tempProjectName_fails_after_partial_output_witness:
  "projects (rushConfigOf [shared_a, shared_b]) = [shared_a] @ shared_b # []
 \<and> tempProjectName shared_b \<in> tempProjectName ` set [shared_a]
 \<and> create_temp_projects semver_fragment writable_folder (rushConfigOf [shared_a, shared_b])
       [shared_a] initial_state =
     Inr \<lparr>commonPackageJson =
            \<lparr>name = ''rush-common'', version = ''0.0.0'', private' = True,
             description = Some ''Temporary file generated by the Rush tool'',
             dependencies = [(''rush-shared'', ''file:./temp_modules/rush-shared'')],
             optionalDependencies = None, rushDependencies = None\<rparr>,
          folders = [''rush-shared''],
          saved =
            [(TempPackageJsonFile ''rush-shared'',
              \<lparr>name = ''rush-shared'', version = ''0.0.0'', private' = True,
               description = None, dependencies = [],
               optionalDependencies = None, rushDependencies = None\<rparr>)],
          console = [''Creating a clean common/temp_modules folder'',
                     ''Creating temp projects...'']\<rparr>
 \<and> \<not> completed (onExecute semver_fragment writable_folder (rushConfigOf [shared_a, shared_b]))
 \<and> CommonPackageJsonFile \<notin> fst ` set (saved (outcome_state
       (onExecute semver_fragment writable_folder (rushConfigOf [shared_a, shared_b]))))
 \<and> onExecute semver_fragment writable_folder (rushConfigOf [shared_a, shared_b]) =
     Inl (EEXIST (tempProjectName shared_b),
          \<lparr>commonPackageJson =
                 \<lparr>name = ''rush-common'', version = ''0.0.0'', private' = True,
                  description = Some ''Temporary file generated by the Rush tool'',
                  dependencies = [(''rush-shared'', ''file:./temp_modules/rush-shared'')],
                  optionalDependencies = None, rushDependencies = None\<rparr>,
               folders = [''rush-shared''],
               saved =
                 [(TempPackageJsonFile ''rush-shared'',
                   \<lparr>name = ''rush-shared'', version = ''0.0.0'', private' = True,
                    description = None, dependencies = [],
                    optionalDependencies = None, rushDependencies = None\<rparr>)],
               console = [''Creating a clean common/temp_modules folder'',
                          ''Creating temp projects...'']\<rparr>)
 \<and> list_all2 (saved_for semver_fragment (rushConfigOf [shared_a, shared_b])) [shared_a]
       (saved
         \<lparr>commonPackageJson =
                \<lparr>name = ''rush-common'', version = ''0.0.0'', private' = True,
                 description = Some ''Temporary file generated by the Rush tool'',
                 dependencies = [(''rush-shared'', ''file:./temp_modules/rush-shared'')],
                 optionalDependencies = None, rushDependencies = None\<rparr>,
              folders = [''rush-shared''],
              saved =
                [(TempPackageJsonFile ''rush-shared'',
                  \<lparr>name = ''rush-shared'', version = ''0.0.0'', private' = True,
                   description = None, dependencies = [],
                   optionalDependencies = None, rushDependencies = None\<rparr>)],
              console = [''Creating a clean common/temp_modules folder'',
                         ''Creating temp projects...'']\<rparr>)
 \<and> tempPackageJson semver_fragment (rushConfigOf [shared_a, shared_b])
       (web_self_named\<lparr>tempProjectName := ''rush-web''\<rparr>) =
     map_sum id (\<lambda>manifest. manifest\<lparr>name := ''rush-web''\<rparr>)
       (tempPackageJson semver_fragment (rushConfigOf [shared_a, shared_b]) web_self_named)"
proof -
  let ?st = "\<lparr>commonPackageJson =
            \<lparr>name = ''rush-common'', version = ''0.0.0'', private' = True,
             description = Some ''Temporary file generated by the Rush tool'',
             dependencies = [(''rush-shared'', ''file:./temp_modules/rush-shared'')],
             optionalDependencies = None, rushDependencies = None\<rparr>,
          folders = [''rush-shared''],
          saved =
            [(TempPackageJsonFile ''rush-shared'',
              \<lparr>name = ''rush-shared'', version = ''0.0.0'', private' = True,
               description = None, dependencies = [],
               optionalDependencies = None, rushDependencies = None\<rparr>)],
          console = [''Creating a clean common/temp_modules folder'',
                     ''Creating temp projects...'']\<rparr>"
  have split: "projects (rushConfigOf [shared_a, shared_b]) = [shared_a] @ shared_b # []"
    by code_simp
  have repeated: "tempProjectName shared_b \<in> tempProjectName ` set [shared_a]"
    by code_simp
  have first: "create_temp_projects semver_fragment writable_folder
       (rushConfigOf [shared_a, shared_b]) [shared_a] initial_state = Inr ?st"
    by code_simp
  from repeated_tempProjectName_fails_after_partial_output
         [where sat = semver_fragment and fs = writable_folder
            and cfg = "rushConfigOf [shared_a, shared_b]" and st = ?st
            and p = web_self_named and t = "''rush-web''", OF split repeated]
       split repeated first
  show ?thesis by blast
qed

text \<open>
  Claim C4 fails as stated. In the workspace below \<^verbatim>\<open>web\<close> depends on the workspace
  project \<^verbatim>\<open>utils\<close> with the specifier \<^verbatim>\<open>not-a-version\<close>. The run completes and the pair
  is a regular dependency, but nothing in what the run leaves behind is a warning: the
  console holds the three progress lines and the saved manifests hold no more than the
  dependency itself.
\<close>

theorem malformed_specifier_counterexample:
  "collect_pairs (packageJson web_malformed) = [(''utils'', ''not-a-version'')]
 \<and> onExecute semver_fragment writable_folder (rushConfigOf [web_malformed, utils]) =
     Inr \<lparr>commonPackageJson =
            \<lparr>name = ''rush-common'', version = ''0.0.0'', private' = True,
             description = Some ''Temporary file generated by the Rush tool'',
             dependencies = [(''rush-web'', ''file:./temp_modules/rush-web''),
                             (''rush-utils'', ''file:./temp_modules/rush-utils'')],
             optionalDependencies = None, rushDependencies = None\<rparr>,
          folders = [''rush-web'', ''rush-utils''],
          saved =
            [(TempPackageJsonFile ''rush-web'',
              \<lparr>name = ''rush-web'', version = ''0.0.0'', private' = True,
               description = None, dependencies = [(''utils'', ''not-a-version'')],
               optionalDependencies = None, rushDependencies = None\<rparr>),
             (TempPackageJsonFile ''rush-utils'',
              \<lparr>name = ''rush-utils'', version = ''0.0.0'', private' = True,
               description = None, dependencies = [],
               optionalDependencies = None, rushDependencies = None\<rparr>),
             (CommonPackageJsonFile,
              \<lparr>name = ''rush-common'', version = ''0.0.0'', private' = True,
               description = Some ''Temporary file generated by the Rush tool'',
               dependencies = [(''rush-web'', ''file:./temp_modules/rush-web''),
                               (''rush-utils'', ''file:./temp_modules/rush-utils'')],
               optionalDependencies = None, rushDependencies = None\<rparr>)],
          console = [''Creating a clean common/temp_modules folder'',
                     ''Creating temp projects...'', ''Writing common/package.json'']\<rparr>"
  by code_simp

text \<open>
  Claim C4 as amended. A specifier for which \<open>satisfies\<close> answers \<^verbatim>\<open>false\<close> whatever
  the version (which is how \<^verbatim>\<open>semver.satisfies\<close> treats a range it cannot parse) raises
  nothing: the loop body makes the assignment of line 183 and returns,
  \<^const>\<open>classify\<close> says external, and the pair is no entry of \<^verbatim>\<open>rushDependencies\<close> in
  the saved manifest. No warning is recorded: the console holds the fixed progress lines
  and nothing else.
\<close>

theorem unparsable_specifier_classified_without_warning:
  assumes "\<forall>v. sat v s = Inr False"
  shows "process_pair sat cfg p tmp (n, s) =
           Inr (tmp\<lparr>dependencies := obj_set n s (dependencies tmp)\<rparr>)
       \<and> classify (answers_true sat) cfg p (n, s) = ExternalRegistry
       \<and> (tempPackageJson sat cfg p = Inr manifest \<longrightarrow>
            (n, s) \<notin> set (entries (rushDependencies manifest)))
       \<and> (console (outcome_state (onExecute sat fs cfg)) =
            [''Creating a clean common/temp_modules folder'', ''Creating temp projects...'']
          \<or> console (outcome_state (onExecute sat fs cfg)) =
            [''Creating a clean common/temp_modules folder'', ''Creating temp projects...'',
             ''Writing common/package.json''])"
proof -
  have ext: "classify (answers_true sat) cfg p (n, s) = ExternalRegistry"
    using assms by (simp add: classify_def answers_true_def split: option.splits)
  have step: "process_pair sat cfg p tmp (n, s) =
                Inr (tmp\<lparr>dependencies := obj_set n s (dependencies tmp)\<rparr>)"
    using assms by (simp add: process_pair_def add_regular_def split: option.splits)
  have notlink: "(n, s) \<notin> set (entries (rushDependencies manifest))"
    if "tempPackageJson sat cfg p = Inr manifest"
    using tempPackageJson_rush_set [OF that] ext by auto
  from step ext notlink onExecute_console [of sat fs cfg]
  show ?thesis by blast
qed

theorem unparsable_specifier_classified_without_warning_witness:
  "(\<forall>v. semver_fragment v ''not-a-version'' = Inr False)
 \<and> tempPackageJson semver_fragment (rushConfigOf [web_malformed, utils]) web_malformed =
     Inr \<lparr>name = ''rush-web'', version = ''0.0.0'', private' = True,
          description = None, dependencies = [(''utils'', ''not-a-version'')],
          optionalDependencies = None, rushDependencies = None\<rparr>
 \<and> process_pair semver_fragment (rushConfigOf [web_malformed, utils]) web_malformed
       (new_tempPackageJson web_malformed) (''utils'', ''not-a-version'') =
     Inr ((new_tempPackageJson web_malformed)
            \<lparr>dependencies :=
               obj_set ''utils'' ''not-a-version''
                 (dependencies (new_tempPackageJson web_malformed))\<rparr>)
 \<and> classify (answers_true semver_fragment) (rushConfigOf [web_malformed, utils])
       web_malformed (''utils'', ''not-a-version'') = ExternalRegistry
 \<and> (''utils'', ''not-a-version'') \<notin> set (entries (rushDependencies
       \<lparr>name = ''rush-web'', version = ''0.0.0'', private' = True,
        description = None, dependencies = [(''utils'', ''not-a-version'')],
        optionalDependencies = None, rushDependencies = None\<rparr>))
 \<and> console (outcome_state
       (onExecute semver_fragment writable_folder (rushConfigOf [web_malformed, utils]))) \<noteq>
     [''Creating a clean common/temp_modules folder'', ''Creating temp projects...'']
 \<and> console (outcome_state
       (onExecute semver_fragment writable_folder (rushConfigOf [web_malformed, utils]))) =
     [''Creating a clean common/temp_modules folder'', ''Creating temp projects...'',
      ''Writing common/package.json'']"
proof -
  let ?manifest = "\<lparr>name = ''rush-web'', version = ''0.0.0'', private' = True,
        description = None, dependencies = [(''utils'', ''not-a-version'')],
        optionalDependencies = None, rushDependencies = None\<rparr>"
  have unparsed: "unparsable_range ''not-a-version''"
    by code_simp
  have never: "\<forall>v. semver_fragment v ''not-a-version'' = Inr False"
    by (simp add: semver_fragment_def unparsed)
  have manifest: "tempPackageJson semver_fragment (rushConfigOf [web_malformed, utils])
       web_malformed = Inr ?manifest"
    by code_simp
  have written: "console (outcome_state
       (onExecute semver_fragment writable_folder (rushConfigOf [web_malformed, utils]))) \<noteq>
     [''Creating a clean common/temp_modules folder'', ''Creating temp projects...'']"
    by code_simp
  from unparsable_specifier_classified_without_warning
         [where sat = semver_fragment and s = "''not-a-version''" and fs = writable_folder
            and cfg = "rushConfigOf [web_malformed, utils]" and p = web_malformed
            and tmp = "new_tempPackageJson web_malformed" and n = "''utils''"
            and manifest = ?manifest, OF never]
       never manifest written
  show ?thesis by blast
qed

end
